theory Spec2Isabelle
  imports Main "HOL-Library.AList" "HOL-Library.Sublist"
begin

section \<open>Python values, exceptions and the native environment\<close>

text \<open>
  The module \<^verbatim>\<open>goex/exec_engine/db_manager.py\<close> holds four adapters
  (\<^verbatim>\<open>SQLiteManager\<close>, \<^verbatim>\<open>MySQLManager\<close>, \<^verbatim>\<open>PostgreSQLManager\<close>,
  \<^verbatim>\<open>MongoDBManager\<close>) over native drivers. The drivers are not part of the module:
  they are parameters of the model (records of functions over an arbitrary database
  state \<open>'db\<close>). Everything the adapters themselves do (attribute reads and writes,
  the truth tests, the string processing, the \<^verbatim>\<open>try/except\<close> blocks, the order of
  native calls) is written out.

  Python values that configurations and JSON commands carry. \<open>PConn\<close>, \<open>PCursor\<close>
  and \<open>PDb\<close> are references to native objects (a connection, its cursor, a database
  handle of a connection); \<open>PObj\<close> is a native result object with its attributes.
\<close>

datatype pyval =
    PNone
  | PBool bool
  | PInt int
  | PStr string
  | PList "pyval list"
  | PDict "(string \<times> pyval) list"
  | PObj "(string \<times> pyval) list"
  | PConn nat
  | PCursor nat
  | PDb nat pyval

text \<open>
  Python's truth test (\<^verbatim>\<open>if x\<close>, \<^verbatim>\<open>not x\<close>): \<^verbatim>\<open>None\<close>, \<^verbatim>\<open>False\<close>, zero and
  empty containers are false; an object whose class defines neither \<^verbatim>\<open>__bool__\<close> nor
  \<^verbatim>\<open>__len__\<close> (the drivers' connection objects) is true.
\<close>

fun truthy :: "pyval \<Rightarrow> bool" where
  "truthy PNone = False"
| "truthy (PBool b) = b"
| "truthy (PInt i) = (i \<noteq> 0)"
| "truthy (PStr s) = (s \<noteq> [])"
| "truthy (PList l) = (l \<noteq> [])"
| "truthy (PDict d) = (d \<noteq> [])"
| "truthy (PObj d) = True"
| "truthy (PConn n) = True"
| "truthy (PCursor n) = True"
| "truthy (PDb n name) = True"

text \<open>Values in the rows a relational cursor returns.\<close>

datatype sqlval = SNull | SInt int | SText string

text \<open>
  Exceptions. \<open>NativeError msg\<close> is an exception raised by a native driver, with its
  text; the others are raised by Python itself or by the module. All of them are
  subclasses of \<^verbatim>\<open>Exception\<close>, so \<^verbatim>\<open>except Exception\<close> catches each.
\<close>

datatype exn =
    AttributeError string
  | KeyError string
  | ValueError string
  | TypeError string
  | NativeError string

text \<open>What one call of \<^verbatim>\<open>print\<close> wrote: its arguments.\<close>

datatype printed =
    PrStr string
  | PrVal pyval
  | PrRows "sqlval list list"
  | PrExn exn

text \<open>
  The adapter object: its instance attributes. No \<^verbatim>\<open>__init__\<close> of the module
  assigns \<^verbatim>\<open>conn\<close>, \<^verbatim>\<open>cursor\<close>, \<^verbatim>\<open>db\<close> or \<^verbatim>\<open>schema\<close> (and none calls the base
  class's \<^verbatim>\<open>__init__\<close>), so an attribute can be unset: \<open>None\<close> here, and reading it
  raises \<^verbatim>\<open>AttributeError\<close>. \<open>'s\<close> is the type of the schema snapshot.
\<close>

record 's manager =
  db_path :: "pyval option"
  connection_config :: "(string \<times> pyval) list option"
  conn :: "pyval option"
  cursor :: "pyval option"
  db :: "pyval option"
  schema :: "'s option"

definition getattr :: "string \<Rightarrow> 'a option \<Rightarrow> exn + 'a" where
  "getattr name v = (case v of None \<Rightarrow> Inl (AttributeError name) | Some x \<Rightarrow> Inr x)"

text \<open>
  Everything outside the adapter object: the database behind the driver, the class-level
  "driver imported" flag, the arguments of every native connect call so far, which
  connection and cursor objects have been closed, the statements handed to the native
  cursor, the result set the cursor holds, and what was printed.
  The connection object made by the \<open>n\<close>-th native connect call is \<open>PConn n\<close>
  (counting from 0), and its cursor is \<open>PCursor n\<close>.
\<close>

record 'db world =
  backend :: 'db
  driver_imported :: bool
  connect_calls :: "pyval list list"
  closed_conns :: "nat list"
  closed_cursors :: "nat list"
  statements :: "string list"
  pending :: "sqlval list list option"
  stdout :: "printed list list"

text \<open>
  A relational driver (sqlite3, pymysql, psycopg2): the native connect call, the
  execution of one statement (an error text, or the result set it leaves in the cursor
  and the new database), \<^verbatim>\<open>fetchall\<close> on the cursor's result set (sqlite3 returns
  the empty list when there is none, psycopg2 raises), and what closing does:
  \<open>native_cursor_close cursor_closed connection_closed\<close> and
  \<open>native_conn_close connection_closed\<close> give the error text when the driver raises
  (sqlite3's \<^verbatim>\<open>cursor.close()\<close> raises once the connection is closed, pymysql's
  \<^verbatim>\<open>connection.close()\<close> raises on a closed connection, psycopg2 raises in neither).
\<close>

record 'db sql_driver =
  native_connect :: "pyval list \<Rightarrow> 'db \<Rightarrow> string + 'db"
  native_execute :: "string \<Rightarrow> 'db \<Rightarrow> string + (sqlval list list option \<times> 'db)"
  native_fetchall :: "sqlval list list option \<Rightarrow> string + sqlval list list"
  native_cursor_close :: "bool \<Rightarrow> bool \<Rightarrow> string option"
  native_conn_close :: "bool \<Rightarrow> string option"

definition driver_connect ::
  "'db sql_driver \<Rightarrow> pyval list \<Rightarrow> 'db world \<Rightarrow> (exn + pyval) \<times> 'db world" where
  "driver_connect drv args w =
     (let w1 = w\<lparr>connect_calls := connect_calls w @ [args]\<rparr> in
      case native_connect drv args (backend w) of
        Inl msg \<Rightarrow> (Inl (NativeError msg), w1)
      | Inr d \<Rightarrow> (Inr (PConn (length (connect_calls w))), w1\<lparr>backend := d\<rparr>))"

text \<open>
  The DB-API objects. A cursor of a closed connection, or a closed cursor, raises the
  driver's error on \<^verbatim>\<open>execute\<close> and \<^verbatim>\<open>fetchall\<close>. Whether closing a second
  time raises is the driver's.
\<close>

definition closed_error :: exn where
  "closed_error = NativeError ''Cannot operate on a closed database.''"

definition conn_cursor :: "pyval \<Rightarrow> 'db world \<Rightarrow> (exn + pyval) \<times> 'db world" where
  "conn_cursor c w =
     (case c of
        PConn n \<Rightarrow>
          (if n \<in> set (closed_conns w) then (Inl closed_error, w) else (Inr (PCursor n), w))
      | _ \<Rightarrow> (Inl (AttributeError ''cursor''), w))"

definition cursor_execute ::
  "'db sql_driver \<Rightarrow> pyval \<Rightarrow> string \<Rightarrow> 'db world \<Rightarrow> (exn + unit) \<times> 'db world" where
  "cursor_execute drv cur stmt w =
     (case cur of
        PCursor n \<Rightarrow>
          (if n \<in> set (closed_cursors w) \<or> n \<in> set (closed_conns w) then (Inl closed_error, w)
           else
             (let w1 = w\<lparr>statements := statements w @ [stmt]\<rparr> in
              case native_execute drv stmt (backend w) of
                Inl msg \<Rightarrow> (Inl (NativeError msg), w1)
              | Inr (rs, d) \<Rightarrow> (Inr (), w1\<lparr>backend := d, pending := rs\<rparr>)))
      | _ \<Rightarrow> (Inl (AttributeError ''execute''), w))"

definition cursor_fetchall ::
  "'db sql_driver \<Rightarrow> pyval \<Rightarrow> 'db world \<Rightarrow> (exn + sqlval list list) \<times> 'db world" where
  "cursor_fetchall drv cur w =
     (case cur of
        PCursor n \<Rightarrow>
          (if n \<in> set (closed_cursors w) \<or> n \<in> set (closed_conns w) then (Inl closed_error, w)
           else
             (case native_fetchall drv (pending w) of
                Inl msg \<Rightarrow> (Inl (NativeError msg), w)
              | Inr rows \<Rightarrow> (Inr rows, w\<lparr>pending := None\<rparr>)))
      | _ \<Rightarrow> (Inl (AttributeError ''fetchall''), w))"

definition cursor_close ::
  "'db sql_driver \<Rightarrow> pyval \<Rightarrow> 'db world \<Rightarrow> (exn + unit) \<times> 'db world" where
  "cursor_close drv cur w =
     (case cur of
        PCursor n \<Rightarrow>
          (case native_cursor_close drv (n \<in> set (closed_cursors w)) (n \<in> set (closed_conns w)) of
             Some msg \<Rightarrow> (Inl (NativeError msg), w)
           | None \<Rightarrow> (Inr (), w\<lparr>closed_cursors := closed_cursors w @ [n]\<rparr>))
      | _ \<Rightarrow> (Inl (AttributeError ''close''), w))"

definition conn_close ::
  "'db sql_driver \<Rightarrow> pyval \<Rightarrow> 'db world \<Rightarrow> (exn + unit) \<times> 'db world" where
  "conn_close drv c w =
     (case c of
        PConn n \<Rightarrow>
          (case native_conn_close drv (n \<in> set (closed_conns w)) of
             Some msg \<Rightarrow> (Inl (NativeError msg), w)
           | None \<Rightarrow> (Inr (), w\<lparr>closed_conns := closed_conns w @ [n]\<rparr>))
      | _ \<Rightarrow> (Inl (AttributeError ''close''), w))"


section \<open>String operations\<close>

text \<open>
  A Python string is a sequence of code points. A \<^typ>\<open>char\<close> stands for the code
  point of its number, so a \<^typ>\<open>string\<close> is a text whose code points are below 256
  (U+0000 to U+00FF); texts with other code points are outside the model.

  \<^verbatim>\<open>str.split(sep)\<close> for a one-character separator.
\<close>

fun split_on :: "char \<Rightarrow> string \<Rightarrow> string list" where
  "split_on sep [] = [[]]"
| "split_on sep (c # cs) =
     (if c = sep then [] # split_on sep cs
      else (case split_on sep cs of
              [] \<Rightarrow> [[c]]
            | seg # segs \<Rightarrow> (c # seg) # segs))"

text \<open>
  \<^verbatim>\<open>str.strip()\<close> removes the leading and trailing characters that
  \<^verbatim>\<open>str.isspace\<close> accepts. Below 256 these are U+0009 to U+000D, U+001C to U+001F,
  the space U+0020, U+0085 (next line) and U+00A0 (no-break space).
\<close>

definition isspace :: "char \<Rightarrow> bool" where
  "isspace c =
     (c = CHR '' '' \<or> (9 \<le> (of_char c :: nat) \<and> (of_char c :: nat) \<le> 13)
      \<or> (28 \<le> (of_char c :: nat) \<and> (of_char c :: nat) \<le> 31)
      \<or> (of_char c :: nat) = 133 \<or> (of_char c :: nat) = 160)"

definition strip :: "string \<Rightarrow> string" where
  "strip s = rev (dropWhile isspace (rev (dropWhile isspace s)))"

text \<open>
  \<^verbatim>\<open>str.upper()\<close>, as the list of the code points of its result, which can lie
  above 255 and can be longer than the text: a to z and the lower-case letters U+00E0 to
  U+00FE (but the division sign U+00F7) move down by 32; the micro sign U+00B5 becomes
  U+039C, the sharp s U+00DF becomes SS, and U+00FF becomes U+0178; every other code
  point below 256 stays.
\<close>

definition upper_char :: "char \<Rightarrow> nat list" where
  "upper_char c =
     (let n = (of_char c :: nat) in
      if 97 \<le> n \<and> n \<le> 122 then [n - 32]
      else if n = 181 then [924]
      else if n = 223 then [83, 83]
      else if 224 \<le> n \<and> n \<le> 254 \<and> n \<noteq> 247 then [n - 32]
      else if n = 255 then [376]
      else [n])"

definition upper :: "string \<Rightarrow> nat list" where
  "upper s = concat (map upper_char s)"

text \<open>The code points of a text; \<^verbatim>\<open>str.startswith\<close> is \<^const>\<open>prefix\<close>.\<close>

definition code_points :: "string \<Rightarrow> nat list" where
  "code_points s = map of_char s"

text \<open>\<^verbatim>\<open>str(v)\<close> of a row value, as an f-string interpolates it.\<close>

function str_nat :: "nat \<Rightarrow> string" where
  "str_nat n =
     (if n < 10 then [''0123456789'' ! n]
      else str_nat (n div 10) @ [''0123456789'' ! (n mod 10)])"
  by pat_completeness auto
termination
  by (relation "measure id") auto

fun str_sqlval :: "sqlval \<Rightarrow> string" where
  "str_sqlval SNull = ''None''"
| "str_sqlval (SInt i) = (if i < 0 then CHR ''-'' # str_nat (nat (- i)) else str_nat (nat i))"
| "str_sqlval (SText s) = s"

section \<open>SQLiteManager\<close>

type_synonym sql_schema = "(sqlval \<times> sqlval list list) list"

definition new_manager :: "'s manager" where
  "new_manager =
     \<lparr>db_path = None, connection_config = None, conn = None, cursor = None, db = None,
      schema = None\<rparr>"

text \<open>
  \<^verbatim>\<open>SQLiteManager.__init__\<close> (lines 113-130). The driver module is imported once
  (the class-level flag); the key test and the emptiness test raise \<^verbatim>\<open>ValueError\<close>.
  A constructor that raises yields no object.
\<close>

definition SQLiteManager_init ::
  "(string \<rightharpoonup> pyval) \<Rightarrow> 'db world \<Rightarrow> (exn + sql_schema manager) \<times> 'db world" where
  "SQLiteManager_init config w =
     (let w1 = (if \<not> driver_imported w then w\<lparr>driver_imported := True\<rparr> else w) in
      if list_ex (\<lambda>key. config key = None) [''path'']
      then (Inl (ValueError ''Failed to initialize SQLite Manager due to bad configs''), w1)
      else
        (case config ''path'' of
           None \<Rightarrow> (Inl (KeyError ''path''), w1)
         | Some p \<Rightarrow>
             (if \<not> truthy p
              then (Inl (ValueError ''Failed to initialize SQLite Manager due to missing path''), w1)
              else (Inr (new_manager\<lparr>db_path := Some p\<rparr>), w1))))"

text \<open>
  \<^verbatim>\<open>update_schema_info\<close> of the three relational adapters (lines 132-141, 246-255,
  359-372) is one text up to the two statements: the catalog query, then one detail
  statement per table, built by an f-string from the table's name; the loop unpacks each
  row as a 1-tuple and stores the rows under the name. The snapshot is assigned only at
  the end.
\<close>

fun schema_loop ::
  "'db sql_driver \<Rightarrow> pyval \<Rightarrow> (string \<Rightarrow> string) \<Rightarrow> sqlval list list \<Rightarrow> sql_schema
     \<Rightarrow> 'db world \<Rightarrow> (exn + sql_schema) \<times> 'db world" where
  "schema_loop drv cur detail [] schema_info w = (Inr schema_info, w)"
| "schema_loop drv cur detail (row # rest) schema_info w =
     (case row of
        [table_name] \<Rightarrow>
          (case cursor_execute drv cur (detail (str_sqlval table_name)) w of
             (Inl e, w1) \<Rightarrow> (Inl e, w1)
           | (Inr u, w1) \<Rightarrow>
               (case cursor_fetchall drv cur w1 of
                  (Inl e, w2) \<Rightarrow> (Inl e, w2)
                | (Inr rows, w2) \<Rightarrow>
                    schema_loop drv cur detail rest (AList.update table_name rows schema_info) w2))
      | _ \<Rightarrow> (Inl (ValueError ''not enough values to unpack''), w))"

definition sql_update_schema_info ::
  "'db sql_driver \<Rightarrow> string \<Rightarrow> (string \<Rightarrow> string) \<Rightarrow> sql_schema manager \<Rightarrow> 'db world
     \<Rightarrow> (exn + unit) \<times> sql_schema manager \<times> 'db world" where
  "sql_update_schema_info drv tables_query detail a w =
     (case getattr ''cursor'' (cursor a) of
        Inl e \<Rightarrow> (Inl e, a, w)
      | Inr cur \<Rightarrow>
          (case cursor_execute drv cur tables_query w of
             (Inl e, w1) \<Rightarrow> (Inl e, a, w1)
           | (Inr u, w1) \<Rightarrow>
               (case cursor_fetchall drv cur w1 of
                  (Inl e, w2) \<Rightarrow> (Inl e, a, w2)
                | (Inr tables, w2) \<Rightarrow>
                    (case schema_loop drv cur detail tables [] w2 of
                       (Inl e, w3) \<Rightarrow> (Inl e, a, w3)
                     | (Inr schema_info, w3) \<Rightarrow> (Inr (), a\<lparr>schema := Some schema_info\<rparr>, w3)))))"

definition sqlite_tables_query :: string where
  "sqlite_tables_query = ''SELECT name FROM sqlite_master WHERE type='table';''"

definition sqlite_table_info :: "string \<Rightarrow> string" where
  "sqlite_table_info table_name = ''PRAGMA table_info('' @ table_name @ '');''"

definition SQLiteManager_update_schema_info ::
  "'db sql_driver \<Rightarrow> sql_schema manager \<Rightarrow> 'db world
     \<Rightarrow> (exn + unit) \<times> sql_schema manager \<times> 'db world" where
  "SQLiteManager_update_schema_info drv a w =
     sql_update_schema_info drv sqlite_tables_query sqlite_table_info a w"

text \<open>
  \<^verbatim>\<open>SQLiteManager.connect\<close> (lines 143-147): no \<^verbatim>\<open>try\<close>; an exception of any of the
  three steps leaves the method as it is.
\<close>

definition SQLiteManager_connect ::
  "'db sql_driver \<Rightarrow> sql_schema manager \<Rightarrow> 'db world
     \<Rightarrow> (exn + unit) \<times> sql_schema manager \<times> 'db world" where
  "SQLiteManager_connect drv a w =
     (case getattr ''db_path'' (db_path a) of
        Inl e \<Rightarrow> (Inl e, a, w)
      | Inr p \<Rightarrow>
          (case driver_connect drv [p] w of
             (Inl e, w1) \<Rightarrow> (Inl e, a, w1)
           | (Inr c, w1) \<Rightarrow>
               (case conn_cursor c w1 of
                  (Inl e, w2) \<Rightarrow> (Inl e, a\<lparr>conn := Some c\<rparr>, w2)
                | (Inr cur, w2) \<Rightarrow>
                    SQLiteManager_update_schema_info drv (a\<lparr>conn := Some c, cursor := Some cur\<rparr>) w2)))"

text \<open>
  \<^verbatim>\<open>SQLiteManager.execute_db_call\<close> (lines 150-164). The list comprehension keeps
  the stripped segments that are non-empty and do not start with \<^verbatim>\<open>--\<close>; the loop
  executes them, printing the rows of those that start with \<^verbatim>\<open>SELECT\<close>. The truth
  test of \<^verbatim>\<open>self.conn\<close> and the lazy \<^verbatim>\<open>connect()\<close> stand before the \<^verbatim>\<open>try\<close>.
\<close>

definition commands_list :: "string \<Rightarrow> string list" where
  "commands_list call =
     map strip (filter (\<lambda>cmd. strip cmd \<noteq> [] \<and> \<not> prefix ''--'' (strip cmd)) (split_on CHR '';'' call))"

fun sqlite_run_commands ::
  "'db sql_driver \<Rightarrow> sql_schema manager \<Rightarrow> string list \<Rightarrow> 'db world \<Rightarrow> (exn + unit) \<times> 'db world" where
  "sqlite_run_commands drv a [] w = (Inr (), w)"
| "sqlite_run_commands drv a (command # rest) w =
     (case getattr ''cursor'' (cursor a) of
        Inl e \<Rightarrow> (Inl e, w)
      | Inr cur \<Rightarrow>
          (if prefix (code_points ''SELECT'') (upper command)
           then
             (case cursor_execute drv cur command w of
                (Inl e, w1) \<Rightarrow> (Inl e, w1)
              | (Inr u, w1) \<Rightarrow>
                  (case cursor_fetchall drv cur w1 of
                     (Inl e, w2) \<Rightarrow> (Inl e, w2)
                   | (Inr rows, w2) \<Rightarrow>
                       sqlite_run_commands drv a rest (w2\<lparr>stdout := stdout w2 @ [[PrRows rows]]\<rparr>)))
           else
             (case cursor_execute drv cur command w of
                (Inl e, w1) \<Rightarrow> (Inl e, w1)
              | (Inr u, w1) \<Rightarrow> sqlite_run_commands drv a rest w1)))"

definition SQLiteManager_execute_db_call ::
  "'db sql_driver \<Rightarrow> string \<Rightarrow> sql_schema manager \<Rightarrow> 'db world
     \<Rightarrow> (exn + int) \<times> sql_schema manager \<times> 'db world" where
  "SQLiteManager_execute_db_call drv call a w =
     (case getattr ''conn'' (conn a) of
        Inl e \<Rightarrow> (Inl e, a, w)
      | Inr c \<Rightarrow>
          (case (if \<not> truthy c then SQLiteManager_connect drv a w else (Inr (), a, w)) of
             (Inl e, a1, w1) \<Rightarrow> (Inl e, a1, w1)
           | (Inr u, a1, w1) \<Rightarrow>
               (case sqlite_run_commands drv a1 (commands_list call) w1 of
                  (Inl e, w2) \<Rightarrow> (Inr 1, a1, w2)
                | (Inr u, w2) \<Rightarrow>
                    (case SQLiteManager_update_schema_info drv a1 w2 of
                       (Inl e, a3, w3) \<Rightarrow> (Inr 1, a3, w3)
                     | (Inr u, a3, w3) \<Rightarrow> (Inr 0, a3, w3)))))"

text \<open>
  \<^verbatim>\<open>SQLiteManager.fetch_db_call\<close> (lines 167-176): one statement, no splitting.
  \<open>sql_fetch_body\<close> is the first two lines of the \<^verbatim>\<open>try\<close> block, the same in
  the three relational adapters.
\<close>

definition sql_fetch_body ::
  "'db sql_driver \<Rightarrow> string \<Rightarrow> sql_schema manager \<Rightarrow> 'db world
     \<Rightarrow> (exn + sqlval list list) \<times> 'db world" where
  "sql_fetch_body drv call a w =
     (case getattr ''cursor'' (cursor a) of
        Inl e \<Rightarrow> (Inl e, w)
      | Inr cur \<Rightarrow>
          (case cursor_execute drv cur call w of
             (Inl e, w1) \<Rightarrow> (Inl e, w1)
           | (Inr u, w1) \<Rightarrow> cursor_fetchall drv cur w1))"

definition SQLiteManager_fetch_db_call ::
  "'db sql_driver \<Rightarrow> string \<Rightarrow> sql_schema manager \<Rightarrow> 'db world
     \<Rightarrow> (exn + sqlval list list) \<times> sql_schema manager \<times> 'db world" where
  "SQLiteManager_fetch_db_call drv call a w =
     (case getattr ''conn'' (conn a) of
        Inl e \<Rightarrow> (Inl e, a, w)
      | Inr c \<Rightarrow>
          (case (if \<not> truthy c then SQLiteManager_connect drv a w else (Inr (), a, w)) of
             (Inl e, a1, w1) \<Rightarrow> (Inl e, a1, w1)
           | (Inr u, a1, w1) \<Rightarrow>
               (case sql_fetch_body drv call a1 w1 of
                  (Inl e, w2) \<Rightarrow> (Inr [], a1, w2)
                | (Inr ret_val, w2) \<Rightarrow>
                    (case SQLiteManager_update_schema_info drv a1 w2 of
                       (Inl e, a3, w3) \<Rightarrow> (Inr [], a3, w3)
                     | (Inr u, a3, w3) \<Rightarrow> (Inr ret_val, a3, w3)))))"

text \<open>
  \<^verbatim>\<open>close\<close> of the three relational adapters (lines 192-195, 299-303, 416-420), one
  text. It closes the cursor and the connection and assigns nothing: \<^verbatim>\<open>self.conn\<close>
  keeps the closed connection object.
\<close>

definition sql_close ::
  "'db sql_driver \<Rightarrow> 's manager \<Rightarrow> 'db world \<Rightarrow> (exn + unit) \<times> 's manager \<times> 'db world" where
  "sql_close drv a w =
     (case getattr ''conn'' (conn a) of
        Inl e \<Rightarrow> (Inl e, a, w)
      | Inr c \<Rightarrow>
          (if truthy c
           then
             (case getattr ''cursor'' (cursor a) of
                Inl e \<Rightarrow> (Inl e, a, w)
              | Inr cur \<Rightarrow>
                  (case cursor_close drv cur w of
                     (Inl e, w1) \<Rightarrow> (Inl e, a, w1)
                   | (Inr u, w1) \<Rightarrow>
                       (case conn_close drv c w1 of
                          (Inl e, w2) \<Rightarrow> (Inl e, a, w2)
                        | (Inr u, w2) \<Rightarrow> (Inr (), a, w2))))
           else (Inr (), a, w)))"

definition SQLiteManager_close ::
  "'db sql_driver \<Rightarrow> sql_schema manager \<Rightarrow> 'db world
     \<Rightarrow> (exn + unit) \<times> sql_schema manager \<times> 'db world" where
  "SQLiteManager_close drv a w = sql_close drv a w"

section \<open>MySQLManager\<close>

text \<open>
  \<^verbatim>\<open>MySQLManager.__init__\<close> (lines 214-238): all four keys must be present, and each
  value true. \<^verbatim>\<open>pymysql.constants.CLIENT.MULTI_STATEMENTS\<close> is the driver's constant
  \<open>1 << 16\<close>.
\<close>

definition MULTI_STATEMENTS :: pyval where
  "MULTI_STATEMENTS = PInt 65536"

definition MySQLManager_init ::
  "(string \<rightharpoonup> pyval) \<Rightarrow> 'db world \<Rightarrow> (exn + sql_schema manager) \<times> 'db world" where
  "MySQLManager_init config w =
     (let w1 = (if \<not> driver_imported w then w\<lparr>driver_imported := True\<rparr> else w) in
      if list_ex (\<lambda>key. config key = None) [''host'', ''user'', ''password'', ''database'']
      then (Inl (ValueError ''Failed to initialize MySQL Manager due to bad configs''), w1)
      else
        (case (config ''host'', config ''user'', config ''password'', config ''database'') of
           (Some host, Some user, Some password, Some database) \<Rightarrow>
             (if list_ex (\<lambda>v. \<not> truthy v) [host, user, password, database]
              then (Inl (ValueError ''Failed to initialize MySQL Manager due to missing configs''), w1)
              else
                (Inr (new_manager\<lparr>connection_config :=
                        Some [(''host'', host), (''user'', user), (''password'', password),
                              (''database'', database), (''client_flag'', MULTI_STATEMENTS)]\<rparr>),
                 w1))
         | _ \<Rightarrow> (Inl (KeyError ''connection_config''), w1)))"

definition mysql_tables_query :: string where
  "mysql_tables_query = ''SHOW TABLES''"

definition mysql_describe :: "string \<Rightarrow> string" where
  "mysql_describe table_name = ''DESCRIBE '' @ table_name"

definition MySQLManager_update_schema_info ::
  "'db sql_driver \<Rightarrow> sql_schema manager \<Rightarrow> 'db world
     \<Rightarrow> (exn + unit) \<times> sql_schema manager \<times> 'db world" where
  "MySQLManager_update_schema_info drv a w =
     sql_update_schema_info drv mysql_tables_query mysql_describe a w"

text \<open>
  \<^verbatim>\<open>MySQLManager.connect\<close> (lines 240-244): the stored configuration is passed as
  keyword arguments; no \<^verbatim>\<open>try\<close>.
\<close>

definition MySQLManager_connect ::
  "'db sql_driver \<Rightarrow> sql_schema manager \<Rightarrow> 'db world
     \<Rightarrow> (exn + unit) \<times> sql_schema manager \<times> 'db world" where
  "MySQLManager_connect drv a w =
     (case getattr ''connection_config'' (connection_config a) of
        Inl e \<Rightarrow> (Inl e, a, w)
      | Inr kwargs \<Rightarrow>
          (case driver_connect drv [PDict kwargs] w of
             (Inl e, w1) \<Rightarrow> (Inl e, a, w1)
           | (Inr c, w1) \<Rightarrow>
               (case conn_cursor c w1 of
                  (Inl e, w2) \<Rightarrow> (Inl e, a\<lparr>conn := Some c\<rparr>, w2)
                | (Inr cur, w2) \<Rightarrow>
                    MySQLManager_update_schema_info drv (a\<lparr>conn := Some c, cursor := Some cur\<rparr>) w2)))"

text \<open>
  \<^verbatim>\<open>execute_db_call\<close> of \<^verbatim>\<open>MySQLManager\<close> (lines 257-266) and of
  \<^verbatim>\<open>PostgreSQLManager\<close> (lines 374-383): the whole string is one statement. The body
  of the \<^verbatim>\<open>try\<close> block is the same; the adapters differ in \<^verbatim>\<open>connect\<close> and in
  \<^verbatim>\<open>update_schema_info\<close>, taken here as arguments.
\<close>

definition sql_execute_whole ::
  "'db sql_driver \<Rightarrow> string \<Rightarrow> sql_schema manager \<Rightarrow> 'db world \<Rightarrow> (exn + unit) \<times> 'db world" where
  "sql_execute_whole drv call a w =
     (case getattr ''cursor'' (cursor a) of
        Inl e \<Rightarrow> (Inl e, w)
      | Inr cur \<Rightarrow> cursor_execute drv cur call w)"

definition MySQLManager_execute_db_call ::
  "'db sql_driver \<Rightarrow> string \<Rightarrow> sql_schema manager \<Rightarrow> 'db world
     \<Rightarrow> (exn + int) \<times> sql_schema manager \<times> 'db world" where
  "MySQLManager_execute_db_call drv call a w =
     (case getattr ''conn'' (conn a) of
        Inl e \<Rightarrow> (Inl e, a, w)
      | Inr c \<Rightarrow>
          (case (if \<not> truthy c then MySQLManager_connect drv a w else (Inr (), a, w)) of
             (Inl e, a1, w1) \<Rightarrow> (Inl e, a1, w1)
           | (Inr u, a1, w1) \<Rightarrow>
               (case sql_execute_whole drv call a1 w1 of
                  (Inl e, w2) \<Rightarrow> (Inr 1, a1, w2)
                | (Inr u, w2) \<Rightarrow>
                    (case MySQLManager_update_schema_info drv a1 w2 of
                       (Inl e, a3, w3) \<Rightarrow> (Inr 1, a3, w3)
                     | (Inr u, a3, w3) \<Rightarrow> (Inr 0, a3, w3)))))"

text \<open>\<^verbatim>\<open>MySQLManager.fetch_db_call\<close> (lines 268-285).\<close>

definition MySQLManager_fetch_db_call ::
  "'db sql_driver \<Rightarrow> string \<Rightarrow> sql_schema manager \<Rightarrow> 'db world
     \<Rightarrow> (exn + sqlval list list) \<times> sql_schema manager \<times> 'db world" where
  "MySQLManager_fetch_db_call drv call a w =
     (case getattr ''conn'' (conn a) of
        Inl e \<Rightarrow> (Inl e, a, w)
      | Inr c \<Rightarrow>
          (case (if \<not> truthy c then MySQLManager_connect drv a w else (Inr (), a, w)) of
             (Inl e, a1, w1) \<Rightarrow> (Inl e, a1, w1)
           | (Inr u, a1, w1) \<Rightarrow>
               (case sql_fetch_body drv call a1 w1 of
                  (Inl e, w2) \<Rightarrow> (Inr [], a1, w2)
                | (Inr ret_val, w2) \<Rightarrow>
                    (case MySQLManager_update_schema_info drv a1 w2 of
                       (Inl e, a3, w3) \<Rightarrow> (Inr [], a3, w3)
                     | (Inr u, a3, w3) \<Rightarrow> (Inr ret_val, a3, w3)))))"

definition MySQLManager_close ::
  "'db sql_driver \<Rightarrow> sql_schema manager \<Rightarrow> 'db world
     \<Rightarrow> (exn + unit) \<times> sql_schema manager \<times> 'db world" where
  "MySQLManager_close drv a w = sql_close drv a w"

section \<open>PostgreSQLManager\<close>

text \<open>
  \<^verbatim>\<open>PostgreSQLManager.__init__\<close> (lines 321-344): the same two tests as
  \<^verbatim>\<open>MySQLManager\<close> (lines 334-337), then the dictionary whose entries fall back to a
  default when the key is absent (lines 339-344).
\<close>

definition PostgreSQLManager_init ::
  "(string \<rightharpoonup> pyval) \<Rightarrow> 'db world \<Rightarrow> (exn + sql_schema manager) \<times> 'db world" where
  "PostgreSQLManager_init config w =
     (let w1 = (if \<not> driver_imported w then w\<lparr>driver_imported := True\<rparr> else w) in
      if list_ex (\<lambda>key. config key = None) [''host'', ''user'', ''password'', ''database'']
      then (Inl (ValueError ''Failed to initialize PostgreSQL Manager due to bad configs''), w1)
      else
        (case (config ''host'', config ''user'', config ''password'', config ''database'') of
           (Some host, Some user, Some password, Some database) \<Rightarrow>
             (if list_ex (\<lambda>v. \<not> truthy v) [host, user, password, database]
              then (Inl (ValueError ''Failed to initialize PostgreSQL Manager due to missing configs''), w1)
              else
                (Inr (new_manager\<lparr>connection_config :=
                        Some [(''dbname'', case config ''database'' of Some v \<Rightarrow> v | None \<Rightarrow> PStr ''postgres''),
                              (''user'', case config ''user'' of Some v \<Rightarrow> v | None \<Rightarrow> PStr ''postgres''),
                              (''password'', case config ''password'' of Some v \<Rightarrow> v | None \<Rightarrow> PStr ''''),
                              (''host'', case config ''host'' of Some v \<Rightarrow> v | None \<Rightarrow> PStr ''127.0.0.1'')]\<rparr>),
                 w1))
         | _ \<Rightarrow> (Inl (KeyError ''connection_config''), w1)))"

definition postgresql_tables_query :: string where
  "postgresql_tables_query =
     ''\<newline>        SELECT table_name\<newline>        FROM information_schema.tables\<newline>        WHERE table_schema = 'public'\<newline>        ''"

definition postgresql_columns_query :: "string \<Rightarrow> string" where
  "postgresql_columns_query table_name =
     ''SELECT column_name, data_type, is_nullable, column_default FROM information_schema.columns WHERE table_name = ''
       @ [CHR 0x27] @ table_name @ [CHR 0x27] @ '';''"

definition PostgreSQLManager_update_schema_info ::
  "'db sql_driver \<Rightarrow> sql_schema manager \<Rightarrow> 'db world
     \<Rightarrow> (exn + unit) \<times> sql_schema manager \<times> 'db world" where
  "PostgreSQLManager_update_schema_info drv a w =
     sql_update_schema_info drv postgresql_tables_query postgresql_columns_query a w"

text \<open>
  \<^verbatim>\<open>PostgreSQLManager.connect\<close> (lines 346-357) and \<^verbatim>\<open>MongoDBManager.connect\<close>
  (lines 463-474) share their \<^verbatim>\<open>except\<close> block: the local \<^verbatim>\<open>connection\<close>
  (\<^verbatim>\<open>None\<close> until the native call has returned) is closed when it is true, and the
  message is printed with the exception. The method then returns normally. \<open>close\<close>
  is the \<^verbatim>\<open>close()\<close> of the connection's class; when it raises, the exception leaves
  the \<^verbatim>\<open>except\<close> block and nothing is printed.
\<close>

definition connect_failed ::
  "(pyval \<Rightarrow> 'db world \<Rightarrow> (exn + unit) \<times> 'db world) \<Rightarrow> pyval \<Rightarrow> exn \<Rightarrow> 's manager \<Rightarrow> 'db world
     \<Rightarrow> (exn + unit) \<times> 's manager \<times> 'db world" where
  "connect_failed close connection e a w =
     (case (if truthy connection then close connection w else (Inr (), w)) of
        (Inl e', w1) \<Rightarrow> (Inl e', a, w1)
      | (Inr u, w1) \<Rightarrow>
          (Inr (), a,
           w1\<lparr>stdout := stdout w1 @ [[PrStr ''Failed to connect to the database. Error:'', PrExn e]]\<rparr>))"

definition PostgreSQLManager_connect ::
  "'db sql_driver \<Rightarrow> sql_schema manager \<Rightarrow> 'db world
     \<Rightarrow> (exn + unit) \<times> sql_schema manager \<times> 'db world" where
  "PostgreSQLManager_connect drv a w =
     (case getattr ''connection_config'' (connection_config a) of
        Inl e \<Rightarrow> connect_failed (conn_close drv) PNone e a w
      | Inr kwargs \<Rightarrow>
          (case driver_connect drv [PDict kwargs] w of
             (Inl e, w1) \<Rightarrow> connect_failed (conn_close drv) PNone e a w1
           | (Inr connection, w1) \<Rightarrow>
               (case conn_cursor connection w1 of
                  (Inl e, w2) \<Rightarrow> connect_failed (conn_close drv) connection e (a\<lparr>conn := Some connection\<rparr>) w2
                | (Inr cur, w2) \<Rightarrow>
                    (case PostgreSQLManager_update_schema_info drv
                            (a\<lparr>conn := Some connection, cursor := Some cur\<rparr>) w2 of
                       (Inl e, a3, w3) \<Rightarrow> connect_failed (conn_close drv) connection e a3 w3
                     | (Inr u, a3, w3) \<Rightarrow> (Inr (), a3, w3)))))"

definition PostgreSQLManager_execute_db_call ::
  "'db sql_driver \<Rightarrow> string \<Rightarrow> sql_schema manager \<Rightarrow> 'db world
     \<Rightarrow> (exn + int) \<times> sql_schema manager \<times> 'db world" where
  "PostgreSQLManager_execute_db_call drv call a w =
     (case getattr ''conn'' (conn a) of
        Inl e \<Rightarrow> (Inl e, a, w)
      | Inr c \<Rightarrow>
          (case (if \<not> truthy c then PostgreSQLManager_connect drv a w else (Inr (), a, w)) of
             (Inl e, a1, w1) \<Rightarrow> (Inl e, a1, w1)
           | (Inr u, a1, w1) \<Rightarrow>
               (case sql_execute_whole drv call a1 w1 of
                  (Inl e, w2) \<Rightarrow> (Inr 1, a1, w2)
                | (Inr u, w2) \<Rightarrow>
                    (case PostgreSQLManager_update_schema_info drv a1 w2 of
                       (Inl e, a3, w3) \<Rightarrow> (Inr 1, a3, w3)
                     | (Inr u, a3, w3) \<Rightarrow> (Inr 0, a3, w3)))))"

text \<open>\<^verbatim>\<open>PostgreSQLManager.fetch_db_call\<close> (lines 385-402).\<close>

definition PostgreSQLManager_fetch_db_call ::
  "'db sql_driver \<Rightarrow> string \<Rightarrow> sql_schema manager \<Rightarrow> 'db world
     \<Rightarrow> (exn + sqlval list list) \<times> sql_schema manager \<times> 'db world" where
  "PostgreSQLManager_fetch_db_call drv call a w =
     (case getattr ''conn'' (conn a) of
        Inl e \<Rightarrow> (Inl e, a, w)
      | Inr c \<Rightarrow>
          (case (if \<not> truthy c then PostgreSQLManager_connect drv a w else (Inr (), a, w)) of
             (Inl e, a1, w1) \<Rightarrow> (Inl e, a1, w1)
           | (Inr u, a1, w1) \<Rightarrow>
               (case sql_fetch_body drv call a1 w1 of
                  (Inl e, w2) \<Rightarrow> (Inr [], a1, w2)
                | (Inr ret_val, w2) \<Rightarrow>
                    (case PostgreSQLManager_update_schema_info drv a1 w2 of
                       (Inl e, a3, w3) \<Rightarrow> (Inr [], a3, w3)
                     | (Inr u, a3, w3) \<Rightarrow> (Inr ret_val, a3, w3)))))"

definition PostgreSQLManager_close ::
  "'db sql_driver \<Rightarrow> sql_schema manager \<Rightarrow> 'db world
     \<Rightarrow> (exn + unit) \<times> sql_schema manager \<times> 'db world" where
  "PostgreSQLManager_close drv a w = sql_close drv a w"

section \<open>MongoDBManager\<close>

text \<open>
  The document driver (pymongo) and \<^verbatim>\<open>json.loads\<close>, as parameters:
  \<^item> \<open>json_loads\<close>: the parsed value, or the decoder's error text;
  \<^item> \<open>mongo_client host port\<close>: \<^verbatim>\<open>pymongo.MongoClient(host, port)\<close>;
  \<^item> \<open>get_database name\<close>: \<^verbatim>\<open>connection[name]\<close>, the error text when the client
    rejects the name;
  \<^item> \<open>list_collection_names name filter\<close> on the database \<open>name\<close>;
  \<^item> \<open>collection_call method name collection args kwargs\<close>: one method of
    \<^verbatim>\<open>db[collection]\<close> with its positional and keyword arguments;
  \<^item> \<open>db_command name data kwargs\<close>: \<^verbatim>\<open>db.command(data, **kwargs)\<close>.
  A native cursor is modelled as the list of its documents, a native result object as
  \<open>PObj\<close> with its attributes.
\<close>

record 'db mongo_driver =
  json_loads :: "string \<Rightarrow> string + pyval"
  mongo_client :: "pyval \<Rightarrow> pyval \<Rightarrow> 'db \<Rightarrow> string + 'db"
  get_database :: "pyval \<Rightarrow> string option"
  list_collection_names :: "pyval \<Rightarrow> pyval \<Rightarrow> 'db \<Rightarrow> string + pyval list"
  collection_call :: "string \<Rightarrow> pyval \<Rightarrow> pyval \<Rightarrow> pyval list \<Rightarrow> pyval \<Rightarrow> 'db \<Rightarrow> string + (pyval \<times> 'db)"
  db_command :: "pyval \<Rightarrow> pyval \<Rightarrow> pyval \<Rightarrow> 'db \<Rightarrow> string + (pyval \<times> 'db)"

type_synonym mongo_schema = "(pyval \<times> pyval) list"

text \<open>
  \<^verbatim>\<open>MongoDBManager.__init__\<close> (lines 438-461): only the presence of \<^verbatim>\<open>host\<close> is
  tested; the other entries fall back to a default when the key is absent.
\<close>

definition MongoDBManager_init ::
  "(string \<rightharpoonup> pyval) \<Rightarrow> 'db world \<Rightarrow> (exn + mongo_schema manager) \<times> 'db world" where
  "MongoDBManager_init config w =
     (let w1 = (if \<not> driver_imported w then w\<lparr>driver_imported := True\<rparr> else w) in
      if config ''host'' = None
      then (Inl (ValueError ''Failed to initialize MongoDB Manager due to bad configs''), w1)
      else
        (Inr (new_manager\<lparr>connection_config :=
                Some [(''host'', case config ''host'' of Some v \<Rightarrow> v | None \<Rightarrow> PStr ''127.0.0.1''),
                      (''port'', case config ''port'' of Some v \<Rightarrow> v | None \<Rightarrow> PStr ''27017''),
                      (''password'', case config ''password'' of Some v \<Rightarrow> v | None \<Rightarrow> PStr ''''),
                      (''dbname'', case config ''database'' of Some v \<Rightarrow> v | None \<Rightarrow> PStr ''mydb'')]\<rparr>),
         w1))"

text \<open>\<^verbatim>\<open>self.connection_config[key]\<close>: the attribute, then the entry.\<close>

definition config_item :: "'s manager \<Rightarrow> string \<Rightarrow> exn + pyval" where
  "config_item a key =
     (case getattr ''connection_config'' (connection_config a) of
        Inl e \<Rightarrow> Inl e
      | Inr cfg \<Rightarrow> (case map_of cfg key of None \<Rightarrow> Inl (KeyError key) | Some v \<Rightarrow> Inr v))"

definition client_connect ::
  "'db mongo_driver \<Rightarrow> pyval \<Rightarrow> pyval \<Rightarrow> 'db world \<Rightarrow> (exn + pyval) \<times> 'db world" where
  "client_connect drv host port w =
     (let w1 = w\<lparr>connect_calls := connect_calls w @ [[host, port]]\<rparr> in
      case mongo_client drv host port (backend w) of
        Inl msg \<Rightarrow> (Inl (NativeError msg), w1)
      | Inr d \<Rightarrow> (Inr (PConn (length (connect_calls w))), w1\<lparr>backend := d\<rparr>))"

text \<open>
  \<^verbatim>\<open>MongoClient.close()\<close>: pymongo's client can be closed any number of times and
  does not raise.
\<close>

definition client_close :: "pyval \<Rightarrow> 'db world \<Rightarrow> (exn + unit) \<times> 'db world" where
  "client_close c w =
     (case c of
        PConn n \<Rightarrow> (Inr (), w\<lparr>closed_conns := closed_conns w @ [n]\<rparr>)
      | _ \<Rightarrow> (Inl (AttributeError ''close''), w))"

definition client_getitem :: "'db mongo_driver \<Rightarrow> pyval \<Rightarrow> pyval \<Rightarrow> exn + pyval" where
  "client_getitem drv connection name =
     (case connection of
        PConn n \<Rightarrow>
          (case get_database drv name of
             Some msg \<Rightarrow> Inl (NativeError msg)
           | None \<Rightarrow> Inr (PDb n name))
      | _ \<Rightarrow> Inl (TypeError ''object is not subscriptable''))"

text \<open>
  \<^verbatim>\<open>MongoDBManager.update_schema_info\<close> (lines 476-485): the collection names that
  pass the filter, then one \<^verbatim>\<open>find_one()\<close> per collection (\<open>mongo_schema_info\<close>
  is the method up to its last line, the assignment of the snapshot).
\<close>

definition system_filter :: pyval where
  "system_filter = PDict [(''name'', PDict [(''$regex'', PStr (''^(?!system'' @ [CHR 0x5C] @ ''.)''))])]"

fun mongo_schema_loop ::
  "'db mongo_driver \<Rightarrow> pyval \<Rightarrow> pyval list \<Rightarrow> mongo_schema \<Rightarrow> 'db world
     \<Rightarrow> (exn + mongo_schema) \<times> 'db world" where
  "mongo_schema_loop drv name [] schema_info w = (Inr schema_info, w)"
| "mongo_schema_loop drv name (collection # rest) schema_info w =
     (case collection_call drv ''find_one'' name collection [] (PDict []) (backend w) of
        Inl msg \<Rightarrow> (Inl (NativeError msg), w)
      | Inr (doc, d) \<Rightarrow>
          mongo_schema_loop drv name rest (AList.update collection doc schema_info) (w\<lparr>backend := d\<rparr>))"

definition mongo_schema_info ::
  "'db mongo_driver \<Rightarrow> mongo_schema manager \<Rightarrow> 'db world \<Rightarrow> (exn + mongo_schema) \<times> 'db world" where
  "mongo_schema_info drv a w =
     (case getattr ''db'' (db a) of
        Inl e \<Rightarrow> (Inl e, w)
      | Inr (PDb n name) \<Rightarrow>
          (case list_collection_names drv name system_filter (backend w) of
             Inl msg \<Rightarrow> (Inl (NativeError msg), w)
           | Inr collections \<Rightarrow> mongo_schema_loop drv name collections [] w)
      | Inr _ \<Rightarrow> (Inl (AttributeError ''list_collection_names''), w))"

definition MongoDBManager_update_schema_info ::
  "'db mongo_driver \<Rightarrow> mongo_schema manager \<Rightarrow> 'db world
     \<Rightarrow> (exn + unit) \<times> mongo_schema manager \<times> 'db world" where
  "MongoDBManager_update_schema_info drv a w =
     (case mongo_schema_info drv a w of
        (Inl e, w1) \<Rightarrow> (Inl e, a, w1)
      | (Inr schema_info, w1) \<Rightarrow> (Inr (), a\<lparr>schema := Some schema_info\<rparr>, w1))"

text \<open>
  \<^verbatim>\<open>MongoDBManager.connect\<close> (lines 463-474): the native client gets the stored host
  and port, the database handle is the client's entry for the stored \<^verbatim>\<open>dbname\<close>.
\<close>

definition MongoDBManager_connect ::
  "'db mongo_driver \<Rightarrow> mongo_schema manager \<Rightarrow> 'db world
     \<Rightarrow> (exn + unit) \<times> mongo_schema manager \<times> 'db world" where
  "MongoDBManager_connect drv a w =
     (case config_item a ''host'' of
        Inl e \<Rightarrow> connect_failed client_close PNone e a w
      | Inr host \<Rightarrow>
          (case config_item a ''port'' of
             Inl e \<Rightarrow> connect_failed client_close PNone e a w
           | Inr port \<Rightarrow>
               (case client_connect drv host port w of
                  (Inl e, w1) \<Rightarrow> connect_failed client_close PNone e a w1
                | (Inr connection, w1) \<Rightarrow>
                    (case config_item (a\<lparr>conn := Some connection\<rparr>) ''dbname'' of
                       Inl e \<Rightarrow> connect_failed client_close connection e (a\<lparr>conn := Some connection\<rparr>) w1
                     | Inr dbname \<Rightarrow>
                         (case client_getitem drv connection dbname of
                            Inl e \<Rightarrow> connect_failed client_close connection e (a\<lparr>conn := Some connection\<rparr>) w1
                          | Inr d \<Rightarrow>
                              (case MongoDBManager_update_schema_info drv
                                      (a\<lparr>conn := Some connection, db := Some d\<rparr>) w1 of
                                 (Inl e, a3, w3) \<Rightarrow> connect_failed client_close connection e a3 w3
                               | (Inr u, a3, w3) \<Rightarrow> (Inr (), a3, w3)))))))"

text \<open>
  The command of \<^verbatim>\<open>execute_db_call\<close> and \<^verbatim>\<open>fetch_db_call\<close>: \<^verbatim>\<open>command.get(key)\<close>
  and \<^verbatim>\<open>command.get(key, {})\<close> (only a dictionary has \<^verbatim>\<open>get\<close>), \<^verbatim>\<open>list(result)\<close>
  and \<^verbatim>\<open>result.attribute\<close>.
\<close>

definition dict_get :: "pyval \<Rightarrow> string \<Rightarrow> pyval \<Rightarrow> exn + pyval" where
  "dict_get command key dflt =
     (case command of
        PDict kv \<Rightarrow> (case map_of kv key of None \<Rightarrow> Inr dflt | Some v \<Rightarrow> Inr v)
      | _ \<Rightarrow> Inl (AttributeError ''get''))"

definition py_list :: "pyval \<Rightarrow> exn + pyval" where
  "py_list result =
     (case result of
        PList docs \<Rightarrow> Inr (PList docs)
      | _ \<Rightarrow> Inl (TypeError ''object is not iterable''))"

definition obj_attr :: "pyval \<Rightarrow> string \<Rightarrow> exn + pyval" where
  "obj_attr result name =
     (case result of
        PObj attrs \<Rightarrow> (case map_of attrs name of None \<Rightarrow> Inl (AttributeError name) | Some v \<Rightarrow> Inr v)
      | _ \<Rightarrow> Inl (AttributeError name))"

text \<open>\<^verbatim>\<open>self.db[collection_name].method(*args, **kwargs)\<close> and \<^verbatim>\<open>self.db.command\<close>.\<close>

definition db_call ::
  "'db mongo_driver \<Rightarrow> string \<Rightarrow> mongo_schema manager \<Rightarrow> pyval \<Rightarrow> pyval list \<Rightarrow> pyval
     \<Rightarrow> 'db world \<Rightarrow> (exn + pyval) \<times> 'db world" where
  "db_call drv method a collection_name args kwargs w =
     (case getattr ''db'' (db a) of
        Inl e \<Rightarrow> (Inl e, w)
      | Inr (PDb n name) \<Rightarrow>
          (case collection_call drv method name collection_name args kwargs (backend w) of
             Inl msg \<Rightarrow> (Inl (NativeError msg), w)
           | Inr (result, d) \<Rightarrow> (Inr result, w\<lparr>backend := d\<rparr>))
      | Inr _ \<Rightarrow> (Inl (TypeError ''object is not subscriptable''), w))"

definition db_run_command ::
  "'db mongo_driver \<Rightarrow> mongo_schema manager \<Rightarrow> pyval \<Rightarrow> pyval \<Rightarrow> 'db world
     \<Rightarrow> (exn + pyval) \<times> 'db world" where
  "db_run_command drv a data kwargs w =
     (case getattr ''db'' (db a) of
        Inl e \<Rightarrow> (Inl e, w)
      | Inr (PDb n name) \<Rightarrow>
          (case db_command drv name data kwargs (backend w) of
             Inl msg \<Rightarrow> (Inl (NativeError msg), w)
           | Inr (result, d) \<Rightarrow> (Inr result, w\<lparr>backend := d\<rparr>))
      | Inr _ \<Rightarrow> (Inl (AttributeError ''command''), w))"

text \<open>
  The \<^verbatim>\<open>if/elif\<close> chain on \<^verbatim>\<open>operation\<close> (lines 507-553 and 581-627). The two
  methods have the same branches; each branch makes one native call and builds one
  value, which \<^verbatim>\<open>execute_db_call\<close> prints and \<^verbatim>\<open>fetch_db_call\<close> returns.
  \<open>counts result names\<close> is the dictionary of the named attributes of \<open>result\<close>.
\<close>

fun counts :: "pyval \<Rightarrow> string list \<Rightarrow> exn + (string \<times> pyval) list" where
  "counts result [] = Inr []"
| "counts result (name # names) =
     (case obj_attr result name of
        Inl e \<Rightarrow> Inl e
      | Inr v \<Rightarrow> (case counts result names of Inl e \<Rightarrow> Inl e | Inr kv \<Rightarrow> Inr ((name, v) # kv)))"

definition described ::
  "(exn + pyval) \<times> 'db world \<Rightarrow> string list \<Rightarrow> (exn + pyval) \<times> 'db world" where
  "described r names =
     (case r of
        (Inl e, w) \<Rightarrow> (Inl e, w)
      | (Inr result, w) \<Rightarrow>
          (case counts result names of Inl e \<Rightarrow> (Inl e, w) | Inr kv \<Rightarrow> (Inr (PDict kv), w)))"

definition listed :: "(exn + pyval) \<times> 'db world \<Rightarrow> (exn + pyval) \<times> 'db world" where
  "listed r =
     (case r of
        (Inl e, w) \<Rightarrow> (Inl e, w)
      | (Inr result, w) \<Rightarrow> (case py_list result of Inl e \<Rightarrow> (Inl e, w) | Inr v \<Rightarrow> (Inr v, w)))"

definition mongo_dispatch ::
  "'db mongo_driver \<Rightarrow> mongo_schema manager \<Rightarrow> pyval \<Rightarrow> pyval \<Rightarrow> pyval \<Rightarrow> pyval \<Rightarrow> pyval
     \<Rightarrow> 'db world \<Rightarrow> (exn + pyval) \<times> 'db world" where
  "mongo_dispatch drv a operation collection_name data query options w =
     (if operation = PStr ''aggregate''
      then listed (db_call drv ''aggregate'' a collection_name [data] options w)
      else if operation = PStr ''insert_one''
      then described (db_call drv ''insert_one'' a collection_name [data] (PDict []) w) [''inserted_id'']
      else if operation = PStr ''insert_many''
      then described (db_call drv ''insert_many'' a collection_name [data] (PDict []) w) [''inserted_ids'']
      else if operation = PStr ''find''
      then listed (db_call drv ''find'' a collection_name [query] options w)
      else if operation = PStr ''find_one''
      then db_call drv ''find_one'' a collection_name [query] options w
      else if operation = PStr ''update_one''
      then described (db_call drv ''update_one'' a collection_name [query, data] options w)
             [''matched_count'', ''modified_count'']
      else if operation = PStr ''update_many''
      then described (db_call drv ''update_many'' a collection_name [query, data] options w)
             [''matched_count'', ''modified_count'']
      else if operation = PStr ''delete_one''
      then described (db_call drv ''delete_one'' a collection_name [query] (PDict []) w) [''deleted_count'']
      else if operation = PStr ''delete_many''
      then described (db_call drv ''delete_many'' a collection_name [query] (PDict []) w) [''deleted_count'']
      else if operation = PStr ''command''
      then db_run_command drv a data options w
      else (Inl (ValueError ''Unsupported operation type''), w))"

text \<open>The operation values the chain has a branch for.\<close>

definition supported_operations :: "string list" where
  "supported_operations =
     [''aggregate'', ''insert_one'', ''insert_many'', ''find'', ''find_one'', ''update_one'',
      ''update_many'', ''delete_one'', ''delete_many'', ''command'']"

text \<open>
  The start of the \<^verbatim>\<open>try\<close> block of both methods (lines 497-504 and 571-578):
  the command is parsed and its five fields are read before the chain.
\<close>

definition mongo_command ::
  "'db mongo_driver \<Rightarrow> string \<Rightarrow> mongo_schema manager \<Rightarrow> 'db world \<Rightarrow> (exn + pyval) \<times> 'db world" where
  "mongo_command drv call a w =
     (case json_loads drv call of
        Inl msg \<Rightarrow> (Inl (ValueError msg), w)
      | Inr command \<Rightarrow>
          (case dict_get command ''operation'' PNone of
             Inl e \<Rightarrow> (Inl e, w)
           | Inr operation \<Rightarrow>
               (case dict_get command ''collection'' PNone of
                  Inl e \<Rightarrow> (Inl e, w)
                | Inr collection_name \<Rightarrow>
                    (case dict_get command ''data'' (PDict []) of
                       Inl e \<Rightarrow> (Inl e, w)
                     | Inr data \<Rightarrow>
                         (case dict_get command ''query'' (PDict []) of
                            Inl e \<Rightarrow> (Inl e, w)
                          | Inr query \<Rightarrow>
                              (case dict_get command ''options'' (PDict []) of
                                 Inl e \<Rightarrow> (Inl e, w)
                               | Inr options \<Rightarrow>
                                   mongo_dispatch drv a operation collection_name data query options w))))))"

text \<open>
  \<^verbatim>\<open>MongoDBManager.execute_db_call\<close> (lines 487-559): the value of the branch is
  printed, the snapshot refreshed, and 0 returned; any exception of the \<^verbatim>\<open>try\<close> block
  is printed and 1 returned.
\<close>

definition MongoDBManager_execute_db_call ::
  "'db mongo_driver \<Rightarrow> string \<Rightarrow> mongo_schema manager \<Rightarrow> 'db world
     \<Rightarrow> (exn + int) \<times> mongo_schema manager \<times> 'db world" where
  "MongoDBManager_execute_db_call drv call a w =
     (case getattr ''conn'' (conn a) of
        Inl e \<Rightarrow> (Inl e, a, w)
      | Inr c \<Rightarrow>
          (case (if \<not> truthy c then MongoDBManager_connect drv a w else (Inr (), a, w)) of
             (Inl e, a1, w1) \<Rightarrow> (Inl e, a1, w1)
           | (Inr u, a1, w1) \<Rightarrow>
               (case mongo_command drv call a1 w1 of
                  (Inl e, w2) \<Rightarrow> (Inr 1, a1, w2\<lparr>stdout := stdout w2 @ [[PrStr ''Error:'', PrExn e]]\<rparr>)
                | (Inr v, w2) \<Rightarrow>
                    (case MongoDBManager_update_schema_info drv a1
                            (w2\<lparr>stdout := stdout w2 @ [[PrVal v]]\<rparr>) of
                       (Inl e, a3, w3) \<Rightarrow>
                         (Inr 1, a3, w3\<lparr>stdout := stdout w3 @ [[PrStr ''Error:'', PrExn e]]\<rparr>)
                     | (Inr u, a3, w3) \<Rightarrow> (Inr 0, a3, w3)))))"

text \<open>
  \<^verbatim>\<open>MongoDBManager.fetch_db_call\<close> (lines 561-633): every branch of the chain
  returns its value (the \<^verbatim>\<open>else\<close> raises), so the two lines after the chain
  (\<^verbatim>\<open>self.update_schema_info()\<close>, \<^verbatim>\<open>return 0\<close>, lines 628-629) are never reached;
  the \<^verbatim>\<open>except\<close> block prints the exception and returns the integer 1.
\<close>

definition MongoDBManager_fetch_db_call ::
  "'db mongo_driver \<Rightarrow> string \<Rightarrow> mongo_schema manager \<Rightarrow> 'db world
     \<Rightarrow> (exn + pyval) \<times> mongo_schema manager \<times> 'db world" where
  "MongoDBManager_fetch_db_call drv call a w =
     (case getattr ''conn'' (conn a) of
        Inl e \<Rightarrow> (Inl e, a, w)
      | Inr c \<Rightarrow>
          (case (if \<not> truthy c then MongoDBManager_connect drv a w else (Inr (), a, w)) of
             (Inl e, a1, w1) \<Rightarrow> (Inl e, a1, w1)
           | (Inr u, a1, w1) \<Rightarrow>
               (case mongo_command drv call a1 w1 of
                  (Inl e, w2) \<Rightarrow>
                    (Inr (PInt 1), a1, w2\<lparr>stdout := stdout w2 @ [[PrStr ''Error:'', PrExn e]]\<rparr>)
                | (Inr v, w2) \<Rightarrow> (Inr v, a1, w2))))"

text \<open>\<^verbatim>\<open>MongoDBManager.close\<close> (lines 641-644): the client only.\<close>

definition MongoDBManager_close ::
  "mongo_schema manager \<Rightarrow> 'db world \<Rightarrow> (exn + unit) \<times> mongo_schema manager \<times> 'db world" where
  "MongoDBManager_close a w =
     (case getattr ''conn'' (conn a) of
        Inl e \<Rightarrow> (Inl e, a, w)
      | Inr c \<Rightarrow>
          (if truthy c
           then (case client_close c w of
                   (Inl e, w1) \<Rightarrow> (Inl e, a, w1)
                 | (Inr u, w1) \<Rightarrow> (Inr (), a, w1))
           else (Inr (), a, w)))"

section \<open>What the driver does with a command\<close>




section \<open>Concrete drivers and states\<close>


text \<open>
  The theorems below hold for every driver. The concrete evaluations need one: a small
  relational engine whose database is the list of its tables' names, and which knows
  the catalog query, \<^verbatim>\<open>PRAGMA table_info\<close> (a syntax error when the interpolated name
  has a space, as in sqlite3) and four statements. Its connect call fails for one path,
  and it closes as sqlite3 does.
\<close>

definition toy_columns :: "sqlval list list" where
  "toy_columns = [[SInt 0, SText ''id'', SText ''INTEGER'', SInt 0, SNull, SInt 1]]"

definition toy_execute ::
  "string \<Rightarrow> string list \<Rightarrow> string + (sqlval list list option \<times> string list)" where
  \<open>toy_execute stmt tables =
     (if stmt = sqlite_tables_query then Inr (Some (map (\<lambda>name. [SText name]) tables), tables)
      else if prefix ''PRAGMA table_info('' stmt then
        (if CHR '' '' \<in> set (drop 18 stmt) then Inl ''near "table": syntax error''
         else Inr (Some toy_columns, tables))
      else if stmt = ''CREATE TABLE t (id INTEGER PRIMARY KEY)'' then Inr (None, tables @ [''t''])
      else if stmt = ''CREATE TABLE "my table" (id INTEGER PRIMARY KEY)''
      then Inr (None, tables @ [''my table''])
      else if stmt = ''INSERT INTO t VALUES (1)'' then Inr (None, tables)
      else if stmt = ''SELECT 1'' then Inr (Some [[SInt 1]], tables)
      else Inl ''syntax error'')\<close>

definition toy_sqlite :: "string list sql_driver" where
  "toy_sqlite =
     \<lparr>native_connect =
        (\<lambda>args tables.
           if args = [PStr ''/no/such/dir/app.db''] then Inl ''unable to open database file''
           else Inr tables),
      native_execute = toy_execute,
      native_fetchall = (\<lambda>rs. case rs of None \<Rightarrow> Inr [] | Some rows \<Rightarrow> Inr rows),
      native_cursor_close =
        (\<lambda>cursor_closed connection_closed.
           if connection_closed then Some ''Cannot operate on a closed database.'' else None),
      native_conn_close = (\<lambda>connection_closed. None)\<rparr>"

definition world0 :: "'db \<Rightarrow> 'db world" where
  "world0 d =
     \<lparr>backend = d, driver_imported = False, connect_calls = [], closed_conns = [],
      closed_cursors = [], statements = [], pending = None, stdout = []\<rparr>"

text \<open>
  The adapter and the world after \<^verbatim>\<open>SQLiteManager({'path': 'app.db'})\<close> and
  \<^verbatim>\<open>connect()\<close> on an empty database (lemma \<open>sqlite_open_reached\<close>).
\<close>

definition a_new :: "sql_schema manager" where
  "a_new = new_manager\<lparr>db_path := Some (PStr ''app.db'')\<rparr>"

definition a_open :: "sql_schema manager" where
  "a_open = a_new\<lparr>conn := Some (PConn 0), cursor := Some (PCursor 0), schema := Some []\<rparr>"

definition w_open :: "string list world" where
  "w_open =
     (world0 [])\<lparr>driver_imported := True, connect_calls := [[PStr ''app.db'']],
                  statements := [sqlite_tables_query]\<rparr>"

text \<open>
  A small document store: the database is the list of its collections with their
  documents. \<open>toy_loads\<close> knows three commands. As pymongo's, its client refuses a
  port that is not an integer.
\<close>

definition call_insert :: string where
  \<open>call_insert = ''{"operation": "insert_one", "collection": "c", "data": {"x": 1}}''\<close>

definition call_drop :: string where
  \<open>call_drop = ''{"operation": "drop", "collection": "c"}''\<close>

definition call_find_bad :: string where
  \<open>call_find_bad = ''{"operation": "find", "collection": "c", "query": {"$bad": 1}}''\<close>

definition toy_loads :: "string \<Rightarrow> string + pyval" where
  "toy_loads s =
     (if s = call_insert
      then Inr (PDict [(''operation'', PStr ''insert_one''), (''collection'', PStr ''c''),
                       (''data'', PDict [(''x'', PInt 1)])])
      else if s = call_drop
      then Inr (PDict [(''operation'', PStr ''drop''), (''collection'', PStr ''c'')])
      else if s = call_find_bad
      then Inr (PDict [(''operation'', PStr ''find''), (''collection'', PStr ''c''),
                       (''query'', PDict [(''$bad'', PInt 1)])])
      else Inl ''Expecting value: line 1 column 1 (char 0)'')"

type_synonym toy_store = "(pyval \<times> pyval list) list"

definition toy_collection_call ::
  "string \<Rightarrow> pyval \<Rightarrow> pyval \<Rightarrow> pyval list \<Rightarrow> pyval \<Rightarrow> toy_store \<Rightarrow> string + (pyval \<times> toy_store)" where
  "toy_collection_call method name collection args kwargs store =
     (if method = ''find_one''
      then (case map_of store collection of
              Some (doc # docs) \<Rightarrow> Inr (doc, store)
            | _ \<Rightarrow> Inr (PNone, store))
      else if method = ''insert_one''
      then (case args of
              [doc] \<Rightarrow>
                Inr (PObj [(''inserted_id'', PInt 1)],
                     AList.update collection
                       ((case map_of store collection of Some docs \<Rightarrow> docs | None \<Rightarrow> []) @ [doc]) store)
            | _ \<Rightarrow> Inl ''insert_one() takes one document'')
      else if method = ''find''
      then (if args = [PDict [(''$bad'', PInt 1)]] then Inl ''unknown top level operator: $bad''
            else Inr (PList (case map_of store collection of Some docs \<Rightarrow> docs | None \<Rightarrow> []), store))
      else Inl ''not supported'')"

definition toy_mongo :: "toy_store mongo_driver" where
  "toy_mongo =
     \<lparr>json_loads = toy_loads,
      mongo_client =
        (\<lambda>host port store.
           case port of PInt n \<Rightarrow> Inr store | _ \<Rightarrow> Inl ''port must be an instance of int''),
      get_database = (\<lambda>name. None),
      list_collection_names = (\<lambda>name flt store. Inr (map fst store)),
      collection_call = toy_collection_call,
      db_command = (\<lambda>name data kwargs store. Inl ''no such command'')\<rparr>"

text \<open>
  The adapter and the world after
  \<^verbatim>\<open>MongoDBManager({'host': 'localhost', 'port': 27017, 'database': 'test_db'})\<close>
  (the module's own example, line 654) and \<^verbatim>\<open>connect()\<close> on an empty store
  (lemma \<open>mongo_open_reached\<close>).
\<close>

definition m_config :: "string \<rightharpoonup> pyval" where
  "m_config = [''host'' \<mapsto> PStr ''localhost'', ''port'' \<mapsto> PInt 27017, ''database'' \<mapsto> PStr ''test_db'']"

definition m_new :: "mongo_schema manager" where
  "m_new =
     new_manager\<lparr>connection_config :=
       Some [(''host'', PStr ''localhost''), (''port'', PInt 27017), (''password'', PStr ''''),
             (''dbname'', PStr ''test_db'')]\<rparr>"

definition m_open :: "mongo_schema manager" where
  "m_open = m_new\<lparr>conn := Some (PConn 0), db := Some (PDb 0 (PStr ''test_db'')), schema := Some []\<rparr>"

definition mw_open :: "toy_store world" where
  "mw_open = (world0 [])\<lparr>driver_imported := True, connect_calls := [[PStr ''localhost'', PInt 27017]]\<rparr>"

text \<open>
  The adapter and the world after \<^verbatim>\<open>MongoDBManager({'host': 'localhost'})\<close> and
  \<^verbatim>\<open>connect()\<close>: the stored port is the default, a string, which the client
  refuses (lemma \<open>mongo_default_reached\<close>).
\<close>

definition m_default :: "mongo_schema manager" where
  "m_default =
     new_manager\<lparr>connection_config :=
       Some [(''host'', PStr ''localhost''), (''port'', PStr ''27017''), (''password'', PStr []),
             (''dbname'', PStr ''mydb'')]\<rparr>"

definition mw_default :: "toy_store world" where
  "mw_default =
     (world0 [])\<lparr>driver_imported := True, connect_calls := [[PStr ''localhost'', PStr ''27017'']],
                  stdout := [[PrStr ''Failed to connect to the database. Error:'',
                              PrExn (NativeError ''port must be an instance of int'')]]\<rparr>"

section \<open>Properties\<close>

declare str_nat.simps [simp del]

lemmas object_defs =
  getattr_def driver_connect_def conn_cursor_def cursor_execute_def cursor_fetchall_def
  cursor_close_def conn_close_def closed_error_def new_manager_def world0_def Let_def

lemmas sqlite_defs =
  SQLiteManager_init_def SQLiteManager_connect_def SQLiteManager_update_schema_info_def
  sql_update_schema_info_def SQLiteManager_execute_db_call_def SQLiteManager_fetch_db_call_def
  sql_fetch_body_def SQLiteManager_close_def sql_close_def sqlite_tables_query_def
  sqlite_table_info_def

lemmas toy_sqlite_defs =
  toy_sqlite_def toy_execute_def toy_columns_def a_new_def a_open_def w_open_def

lemmas mongo_defs =
  MongoDBManager_init_def MongoDBManager_connect_def MongoDBManager_update_schema_info_def
  mongo_schema_info_def
  MongoDBManager_execute_db_call_def MongoDBManager_fetch_db_call_def MongoDBManager_close_def
  config_item_def client_connect_def client_getitem_def client_close_def connect_failed_def
  system_filter_def mongo_command_def mongo_dispatch_def dict_get_def py_list_def obj_attr_def
  db_call_def db_run_command_def described_def listed_def

lemmas toy_mongo_defs =
  toy_mongo_def toy_loads_def toy_collection_call_def call_insert_def call_drop_def
  call_find_bad_def m_config_def m_new_def m_open_def mw_open_def m_default_def mw_default_def

lemmas upper_defs = upper_def upper_char_def code_points_def Let_def

lemmas connect_unfold =
  MongoDBManager_connect_def config_item_def getattr_def client_connect_def client_getitem_def
  connect_failed_def client_close_def Let_def new_manager_def MongoDBManager_update_schema_info_def

subsection \<open>Splitting and stripping\<close>








subsection \<open>The adapter's run of a command and the driver's\<close>






subsection \<open>The concrete states are reached by the adapters themselves\<close>

lemma sqlite_open_reached:
  "SQLiteManager_init [''path'' \<mapsto> PStr ''app.db''] (world0 []) =
     (Inr a_new, (world0 [])\<lparr>driver_imported := True\<rparr>)
   \<and> SQLiteManager_connect toy_sqlite a_new ((world0 [])\<lparr>driver_imported := True\<rparr>) =
     (Inr (), a_open, w_open)"
  by (simp add: object_defs sqlite_defs toy_sqlite_defs)







lemma commands_list_select: "commands_list ''SELECT 1'' = [''SELECT 1'']"
  by (simp add: commands_list_def strip_def isspace_def)

lemma select_prefix: "prefix (code_points ''SELECT'') (upper ''SELECT 1'')"
  by (simp add: upper_defs)







lemma mongo_open_reached:
  "MongoDBManager_init m_config (world0 []) = (Inr m_new, (world0 [])\<lparr>driver_imported := True\<rparr>)
   \<and> MongoDBManager_connect toy_mongo m_new ((world0 [])\<lparr>driver_imported := True\<rparr>) =
     (Inr (), m_open, mw_open)"
  by (simp add: object_defs mongo_defs toy_mongo_defs)

lemma mongo_default_reached:
  "MongoDBManager_init [''host'' \<mapsto> PStr ''localhost''] (world0 ([]::toy_store)) =
     (Inr m_default, (world0 [])\<lparr>driver_imported := True\<rparr>)
   \<and> MongoDBManager_connect toy_mongo m_default ((world0 [])\<lparr>driver_imported := True\<rparr>) =
     (Inr (), m_default, mw_default)"
  by (simp add: object_defs mongo_defs toy_mongo_defs)

lemma mongo_secret_reached:
  "MongoDBManager_init (m_config(''password'' \<mapsto> PStr ''s3cret'')) (world0 ([]::toy_store)) =
     (Inr (m_new\<lparr>connection_config :=
             Some [(''host'', PStr ''localhost''), (''port'', PInt 27017),
                   (''password'', PStr ''s3cret''), (''dbname'', PStr ''test_db'')]\<rparr>),
      (world0 [])\<lparr>driver_imported := True\<rparr>)
   \<and> MongoDBManager_connect toy_mongo
        (m_new\<lparr>connection_config :=
             Some [(''host'', PStr ''localhost''), (''port'', PInt 27017),
                   (''password'', PStr ''s3cret''), (''dbname'', PStr ''test_db'')]\<rparr>)
        ((world0 [])\<lparr>driver_imported := True\<rparr>) =
     (Inr (),
      m_open\<lparr>connection_config :=
             Some [(''host'', PStr ''localhost''), (''port'', PInt 27017),
                   (''password'', PStr ''s3cret''), (''dbname'', PStr ''test_db'')]\<rparr>,
      mw_open)"
  by (simp add: object_defs mongo_defs toy_mongo_defs)

lemma toy_client_facts:
  "mongo_client toy_mongo (PStr ''localhost'') (PInt 27017) ([]::toy_store) = Inr []"
  "mongo_client toy_mongo (PStr ''localhost'') (PStr ''27017'') ([]::toy_store) =
     Inl ''port must be an instance of int''"
  "get_database toy_mongo (PStr ''test_db'') = None"
  by (simp_all add: toy_mongo_def)

subsection \<open>Frame and shape of the document adapter's connect\<close>

lemma mongo_schema_loop_frame:
  "mongo_schema_loop drv name cs acc w = (r, w') \<Longrightarrow>
     connect_calls w' = connect_calls w \<and> stdout w' = stdout w \<and> closed_conns w' = closed_conns w"
  by (induction cs arbitrary: acc w) (auto split: sum.splits prod.splits)

lemma mongo_schema_info_frame:
  "mongo_schema_info drv a w = (r, w') \<Longrightarrow>
     connect_calls w' = connect_calls w \<and> stdout w' = stdout w \<and> closed_conns w' = closed_conns w"
  by (auto simp: mongo_schema_info_def getattr_def dest: mongo_schema_loop_frame
      split: option.splits pyval.splits sum.splits)

lemma mongo_schema_info_db: "db a = db b \<Longrightarrow> mongo_schema_info drv a w = mongo_schema_info drv b w"
  by (simp add: mongo_schema_info_def)

lemma mongo_init_result:
  "MongoDBManager_init config w0 = (Inr a, w1) \<Longrightarrow>
     \<exists>host. config ''host'' = Some host \<and>
       a = new_manager\<lparr>connection_config :=
             Some [(''host'', host),
                   (''port'', case config ''port'' of Some v \<Rightarrow> v | None \<Rightarrow> PStr ''27017''),
                   (''password'', case config ''password'' of Some v \<Rightarrow> v | None \<Rightarrow> PStr []),
                   (''dbname'', case config ''database'' of Some v \<Rightarrow> v | None \<Rightarrow> PStr ''mydb'')]\<rparr>"
  by (auto simp: MongoDBManager_init_def Let_def split: if_splits)

text \<open>
  What \<^verbatim>\<open>MongoDBManager.connect\<close> does on an adapter that has its four entries.
\<close>

lemma mongo_connect_cases:
  assumes a: "a = new_manager\<lparr>connection_config :=
                 Some [(''host'', host), (''port'', port), (''password'', password), (''dbname'', dbname)]\<rparr>"
    and c: "MongoDBManager_connect drv a w = (r, a', w')"
  shows "connect_calls w' = connect_calls w @ [[host, port]]
       \<and> (\<forall>d. mongo_client drv host port (backend w) = Inr d \<and> get_database drv dbname = None \<longrightarrow>
             conn a' = Some (PConn (length (connect_calls w)))
             \<and> db a' = Some (PDb (length (connect_calls w)) dbname))
       \<and> (\<forall>msg. mongo_client drv host port (backend w) = Inl msg \<longrightarrow>
             r = Inr () \<and> a' = a \<and> backend w' = backend w
             \<and> stdout w' = stdout w @ [[PrStr ''Failed to connect to the database. Error:'',
                                         PrExn (NativeError msg)]])
       \<and> (stdout w' = stdout w \<longrightarrow>
             conn a' = Some (PConn (length (connect_calls w)))
             \<and> db a' = Some (PDb (length (connect_calls w)) dbname))
       \<and> (\<exists>b'. MongoDBManager_connect drv (a\<lparr>connection_config :=
                   Some [(''host'', host), (''port'', port), (''password'', p), (''dbname'', dbname)]\<rparr>) w =
                   (r, b', w')
              \<and> conn b' = conn a' \<and> db b' = db a' \<and> schema b' = schema a')"
proof (cases "mongo_client drv host port (backend w)")
  case (Inl msg)
  with a c show ?thesis
    by (auto simp: connect_unfold)
next
  case (Inr d)
  let ?n = "length (connect_calls w)"
  let ?w1 = "w\<lparr>connect_calls := connect_calls w @ [[host, port]], backend := d\<rparr>"
  show ?thesis
  proof (cases "get_database drv dbname")
    case (Some msg)
    with a c Inr show ?thesis
      by (auto simp: connect_unfold)
  next
    case None
    let ?a2 = "a\<lparr>conn := Some (PConn ?n), db := Some (PDb ?n dbname)\<rparr>"
    let ?b2 = "a\<lparr>connection_config :=
                   Some [(''host'', host), (''port'', port), (''password'', p), (''dbname'', dbname)],
                 conn := Some (PConn ?n), db := Some (PDb ?n dbname)\<rparr>"
    obtain r2 w2 where i: "mongo_schema_info drv ?a2 ?w1 = (r2, w2)"
      by (cases "mongo_schema_info drv ?a2 ?w1") auto
    have j: "mongo_schema_info drv ?b2 ?w1 = (r2, w2)"
      using i mongo_schema_info_db [of ?b2 ?a2 drv ?w1] by simp
    from mongo_schema_info_frame [OF i]
    have f: "connect_calls w2 = connect_calls w @ [[host, port]]" "stdout w2 = stdout w"
      by simp_all
    from a c Inr None i j f show ?thesis
      by (cases r2) (auto simp: connect_unfold)
  qed
qed

subsection \<open>What the other paths do\<close>

text \<open>
  The paths next to the ones the claims C1 to C7 fail on: the \<^verbatim>\<open>except\<close> block of
  \<^verbatim>\<open>connect\<close> closes the connection and prints the error; with a driver whose
  \<^verbatim>\<open>close()\<close> does not raise \<^verbatim>\<open>PostgreSQLManager.connect\<close> never raises; the
  relational \<^verbatim>\<open>fetch_db_call\<close> of a connected adapter never raises and returns the
  empty list when its statement fails; every \<^verbatim>\<open>execute_db_call\<close> that returns 0 ends
  with a successful refresh; the constructors raise on a missing required key and make
  no native connect call; a second \<^verbatim>\<open>close()\<close> on the file-based adapter raises with
  a driver that closes as sqlite3 does.
\<close>

lemma connect_failed_returns:
  "\<exists>w'. connect_failed client_close PNone e a w = (Inr (), a, w')
        \<and> stdout w' = stdout w @ [[PrStr ''Failed to connect to the database. Error:'', PrExn e]]"
  "\<exists>w'. connect_failed client_close (PConn n) e a w = (Inr (), a, w')
        \<and> stdout w' = stdout w @ [[PrStr ''Failed to connect to the database. Error:'', PrExn e]]
        \<and> n \<in> set (closed_conns w')"
  by (auto simp: connect_failed_def client_close_def)

lemma postgresql_connect_never_raises:
  assumes "\<forall>connection_closed. native_conn_close drv connection_closed = None"
  shows "\<exists>a' w'. PostgreSQLManager_connect drv a w = (Inr (), a', w')"
  using assms
  by (auto simp: PostgreSQLManager_connect_def connect_failed_def conn_close_def driver_connect_def
      conn_cursor_def Let_def split: sum.splits prod.splits pyval.splits if_splits)

lemma postgresql_connect_native_failure:
  assumes "connection_config a = Some kwargs"
    and "native_connect drv [PDict kwargs] (backend w) = Inl msg"
  shows "PostgreSQLManager_connect drv a w =
           (Inr (), a,
            w\<lparr>connect_calls := connect_calls w @ [[PDict kwargs]],
              stdout := stdout w @ [[PrStr ''Failed to connect to the database. Error:'',
                                     PrExn (NativeError msg)]]\<rparr>)"
  using assms
  by (simp add: PostgreSQLManager_connect_def connect_failed_def driver_connect_def getattr_def Let_def)

lemma sql_fetch_never_raises_when_connected:
  assumes "conn a = Some c" and "truthy c"
  shows "\<exists>rows a' w'. SQLiteManager_fetch_db_call drv call a w = (Inr rows, a', w')"
    and "\<exists>rows a' w'. MySQLManager_fetch_db_call drv call a w = (Inr rows, a', w')"
    and "\<exists>rows a' w'. PostgreSQLManager_fetch_db_call drv call a w = (Inr rows, a', w')"
  using assms
  by (auto simp: SQLiteManager_fetch_db_call_def MySQLManager_fetch_db_call_def
      PostgreSQLManager_fetch_db_call_def getattr_def split: sum.splits prod.splits)

lemma sql_fetch_error_gives_empty:
  assumes "conn a = Some c" and "truthy c" and "sql_fetch_body drv call a w = (Inl e, w1)"
  shows "SQLiteManager_fetch_db_call drv call a w = (Inr [], a, w1)"
    and "MySQLManager_fetch_db_call drv call a w = (Inr [], a, w1)"
    and "PostgreSQLManager_fetch_db_call drv call a w = (Inr [], a, w1)"
  using assms
  by (simp_all add: SQLiteManager_fetch_db_call_def MySQLManager_fetch_db_call_def
      PostgreSQLManager_fetch_db_call_def getattr_def)

lemma execute_success_ends_with_refresh:
  shows "SQLiteManager_execute_db_call drv call a w = (Inr 0, a', w') \<Longrightarrow>
           \<exists>a1 w1. SQLiteManager_update_schema_info drv a1 w1 = (Inr (), a', w')"
    and "MySQLManager_execute_db_call drv call a w = (Inr 0, a', w') \<Longrightarrow>
           \<exists>a1 w1. MySQLManager_update_schema_info drv a1 w1 = (Inr (), a', w')"
    and "PostgreSQLManager_execute_db_call drv call a w = (Inr 0, a', w') \<Longrightarrow>
           \<exists>a1 w1. PostgreSQLManager_update_schema_info drv a1 w1 = (Inr (), a', w')"
    and "MongoDBManager_execute_db_call mdrv call m mw = (Inr 0, m', mw') \<Longrightarrow>
           \<exists>m1 mw1. MongoDBManager_update_schema_info mdrv m1 mw1 = (Inr (), m', mw')"
  by (auto simp: SQLiteManager_execute_db_call_def MySQLManager_execute_db_call_def
      PostgreSQLManager_execute_db_call_def MongoDBManager_execute_db_call_def
      split: sum.splits prod.splits if_splits)

lemma init_missing_key_raises:
  shows "config ''path'' = None \<Longrightarrow>
           SQLiteManager_init config w =
             (Inl (ValueError ''Failed to initialize SQLite Manager due to bad configs''),
              w\<lparr>driver_imported := True\<rparr>)"
    and "config ''host'' = None \<Longrightarrow>
           MongoDBManager_init config w =
             (Inl (ValueError ''Failed to initialize MongoDB Manager due to bad configs''),
              w\<lparr>driver_imported := True\<rparr>)"
    and "list_ex (\<lambda>key. config key = None) [''host'', ''user'', ''password'', ''database''] \<Longrightarrow>
           MySQLManager_init config w =
             (Inl (ValueError ''Failed to initialize MySQL Manager due to bad configs''),
              w\<lparr>driver_imported := True\<rparr>)"
  by (auto simp: SQLiteManager_init_def MongoDBManager_init_def MySQLManager_init_def Let_def)

lemma init_makes_no_connect_call:
  shows "connect_calls (snd (SQLiteManager_init config w)) = connect_calls w"
    and "connect_calls (snd (MySQLManager_init config w)) = connect_calls w"
    and "connect_calls (snd (PostgreSQLManager_init config w)) = connect_calls w"
    and "connect_calls (snd (MongoDBManager_init config w)) = connect_calls w"
  by (auto simp: SQLiteManager_init_def MySQLManager_init_def PostgreSQLManager_init_def
      MongoDBManager_init_def Let_def split: option.splits)

lemma sqlite_close_twice:
  "SQLiteManager_close toy_sqlite a_open (w_open\<lparr>closed_conns := [0], closed_cursors := [0]\<rparr>) =
     (Inl (NativeError ''Cannot operate on a closed database.''), a_open,
      w_open\<lparr>closed_conns := [0], closed_cursors := [0]\<rparr>)"
  by (simp add: object_defs sqlite_defs toy_sqlite_defs)

subsection \<open>The claims\<close>

text \<open>
  Claim C1 (lazy connect; \<^verbatim>\<open>close()\<close> followed by another operation reconnects and
  succeeds). The guard \<^verbatim>\<open>if not self.conn: self.connect()\<close> is there, but no
  constructor assigns \<^verbatim>\<open>self.conn\<close> and \<^verbatim>\<open>close()\<close> does not reset it. On the
  file-based adapter: an execute on the freshly constructed adapter raises
  \<^verbatim>\<open>AttributeError\<close>; on the open handle \<^verbatim>\<open>SELECT 1\<close> returns 0; after
  \<^verbatim>\<open>close()\<close> the same call returns 1, with no second native connect call and the
  closed handle still in place.
\<close>

theorem sqlite_no_lazy_reconnect:
  "SQLiteManager_execute_db_call toy_sqlite ''SELECT 1'' a_new ((world0 [])\<lparr>driver_imported := True\<rparr>) =
     (Inl (AttributeError ''conn''), a_new, (world0 [])\<lparr>driver_imported := True\<rparr>)
   \<and> fst (SQLiteManager_execute_db_call toy_sqlite ''SELECT 1'' a_open w_open) = Inr 0
   \<and> SQLiteManager_close toy_sqlite a_open w_open =
       (Inr (), a_open, w_open\<lparr>closed_conns := [0], closed_cursors := [0]\<rparr>)
   \<and> SQLiteManager_execute_db_call toy_sqlite ''SELECT 1'' a_open
         (w_open\<lparr>closed_conns := [0], closed_cursors := [0]\<rparr>) =
       (Inr 1, a_open, w_open\<lparr>closed_conns := [0], closed_cursors := [0]\<rparr>)
   \<and> connect_calls w_open = [[PStr ''app.db'']]"
  by (simp add: object_defs sqlite_defs toy_sqlite_defs commands_list_select select_prefix)

text \<open>
  Claim C2 (a native error during \<^verbatim>\<open>fetch_db_call\<close> yields the empty list, on every
  backend). On the document adapter a native error of \<^verbatim>\<open>find\<close> makes
  \<^verbatim>\<open>fetch_db_call\<close> print the error and return the integer 1, not the empty list.
\<close>

theorem mongo_fetch_error_returns_one:
  "MongoDBManager_fetch_db_call toy_mongo call_find_bad m_open mw_open =
     (Inr (PInt 1), m_open,
      mw_open\<lparr>stdout := [[PrStr ''Error:'', PrExn (NativeError ''unknown top level operator: $bad'')]]\<rparr>)"
  by (simp add: object_defs mongo_defs toy_mongo_defs)

text \<open>
  Claim C3 (every execute or fetch that completes without a native error refreshes the
  snapshot before it returns). On the document adapter \<^verbatim>\<open>fetch_db_call\<close> returns
  from inside the chain: an \<^verbatim>\<open>insert_one\<close> into a new collection succeeds, the
  snapshot stays the empty one of connect time, and a refresh at that moment would have
  listed the collection.
\<close>

theorem mongo_fetch_leaves_snapshot_stale:
  "MongoDBManager_fetch_db_call toy_mongo call_insert m_open mw_open =
     (Inr (PDict [(''inserted_id'', PInt 1)]), m_open,
      mw_open\<lparr>backend := [(PStr ''c'', [PDict [(''x'', PInt 1)]])]\<rparr>)
   \<and> schema m_open = Some []
   \<and> MongoDBManager_update_schema_info toy_mongo m_open
        (mw_open\<lparr>backend := [(PStr ''c'', [PDict [(''x'', PInt 1)]])]\<rparr>) =
     (Inr (), m_open\<lparr>schema := Some [(PStr ''c'', PDict [(''x'', PInt 1)])]\<rparr>,
      mw_open\<lparr>backend := [(PStr ''c'', [PDict [(''x'', PInt 1)]])]\<rparr>)"
  by (simp add: object_defs mongo_defs toy_mongo_defs)

text \<open>
  Claim C4 (a failing \<^verbatim>\<open>connect()\<close> releases the partial handle and reports the
  error; the caller never gets the native exception). On the file-based adapter the
  native exception of the connect call reaches the caller, and so does one raised by
  the first schema refresh: then the connection object stays unclosed in
  \<^verbatim>\<open>self.conn\<close>, and nothing is printed.
\<close>

theorem sqlite_connect_failure_propagates:
  \<open>SQLiteManager_connect toy_sqlite (new_manager\<lparr>db_path := Some (PStr ''/no/such/dir/app.db'')\<rparr>) (world0 []) =
     (Inl (NativeError ''unable to open database file''),
      new_manager\<lparr>db_path := Some (PStr ''/no/such/dir/app.db'')\<rparr>,
      (world0 [])\<lparr>connect_calls := [[PStr ''/no/such/dir/app.db'']]\<rparr>)
   \<and> SQLiteManager_connect toy_sqlite a_new (world0 [''my table'']) =
     (Inl (NativeError ''near "table": syntax error''),
      a_new\<lparr>conn := Some (PConn 0), cursor := Some (PCursor 0)\<rparr>,
      (world0 [''my table''])
        \<lparr>connect_calls := [[PStr ''app.db'']],
         statements := [sqlite_tables_query, ''PRAGMA table_info(my table);'']\<rparr>)\<close>
  by (simp add: object_defs sqlite_defs toy_sqlite_defs)

text \<open>
  Claim C5, as amended (the claim has no key required and the omitted ones defaulted).
  \<^verbatim>\<open>PostgreSQLManager.__init__\<close> requires the four keys \<^verbatim>\<open>host\<close>, \<^verbatim>\<open>user\<close>,
  \<^verbatim>\<open>password\<close>, \<^verbatim>\<open>database\<close>: when one is absent it raises \<^verbatim>\<open>ValueError\<close>
  ("bad configs"); when all are present and one value is false (empty) it raises
  \<^verbatim>\<open>ValueError\<close> ("missing configs"); otherwise the stored configuration holds the
  four supplied values under \<^verbatim>\<open>dbname\<close>, \<^verbatim>\<open>user\<close>, \<^verbatim>\<open>password\<close>, \<^verbatim>\<open>host\<close>, so
  no default ever applies. The counterexample is a configuration without \<^verbatim>\<open>host\<close>.
\<close>

theorem postgresql_init_all_keys_required:
  "(list_ex (\<lambda>key. config key = None) [''host'', ''user'', ''password'', ''database'']
      \<longrightarrow> fst (PostgreSQLManager_init config w) =
            Inl (ValueError ''Failed to initialize PostgreSQL Manager due to bad configs''))
   \<and> (config ''host'' = Some host \<and> config ''user'' = Some user
        \<and> config ''password'' = Some password \<and> config ''database'' = Some database
      \<longrightarrow> (list_ex (\<lambda>v. \<not> truthy v) [host, user, password, database]
             \<longrightarrow> fst (PostgreSQLManager_init config w) =
                   Inl (ValueError ''Failed to initialize PostgreSQL Manager due to missing configs''))
          \<and> (list_all truthy [host, user, password, database]
             \<longrightarrow> fst (PostgreSQLManager_init config w) =
                   Inr (new_manager\<lparr>connection_config :=
                          Some [(''dbname'', database), (''user'', user), (''password'', password),
                                (''host'', host)]\<rparr>)))"
  by (auto simp: PostgreSQLManager_init_def Let_def)

theorem postgresql_init_all_keys_required_witness:
  "list_ex (\<lambda>key. [''user'' \<mapsto> PStr ''alice''] key = None) [''host'', ''user'', ''password'', ''database'']
   \<and> fst (PostgreSQLManager_init [''user'' \<mapsto> PStr ''alice''] (world0 ())) =
        Inl (ValueError ''Failed to initialize PostgreSQL Manager due to bad configs'')
   \<and> list_ex (\<lambda>v. \<not> truthy v) [PStr ''db.local'', PStr ''alice'', PStr [], PStr ''shop'']
   \<and> fst (PostgreSQLManager_init
             [''host'' \<mapsto> PStr ''db.local'', ''user'' \<mapsto> PStr ''alice'', ''password'' \<mapsto> PStr [],
              ''database'' \<mapsto> PStr ''shop''] (world0 ())) =
        Inl (ValueError ''Failed to initialize PostgreSQL Manager due to missing configs'')
   \<and> list_all truthy [PStr ''db.local'', PStr ''alice'', PStr ''s3cret'', PStr ''shop'']
   \<and> fst (PostgreSQLManager_init
             [''host'' \<mapsto> PStr ''db.local'', ''user'' \<mapsto> PStr ''alice'', ''password'' \<mapsto> PStr ''s3cret'',
              ''database'' \<mapsto> PStr ''shop''] (world0 ())) =
        Inr (new_manager\<lparr>connection_config :=
               Some [(''dbname'', PStr ''shop''), (''user'', PStr ''alice''), (''password'', PStr ''s3cret''),
                     (''host'', PStr ''db.local'')]\<rparr>)"
  using postgresql_init_all_keys_required
          [where config = "[''user'' \<mapsto> PStr ''alice'']" and w = "world0 ()"]
        postgresql_init_all_keys_required
          [where config = "[''host'' \<mapsto> PStr ''db.local'', ''user'' \<mapsto> PStr ''alice'',
                            ''password'' \<mapsto> PStr [], ''database'' \<mapsto> PStr ''shop'']"
             and host = "PStr ''db.local''" and user = "PStr ''alice''" and password = "PStr []"
             and database = "PStr ''shop''" and w = "world0 ()"]
        postgresql_init_all_keys_required
          [where config = "[''host'' \<mapsto> PStr ''db.local'', ''user'' \<mapsto> PStr ''alice'',
                            ''password'' \<mapsto> PStr ''s3cret'', ''database'' \<mapsto> PStr ''shop'']"
             and host = "PStr ''db.local''" and user = "PStr ''alice''" and password = "PStr ''s3cret''"
             and database = "PStr ''shop''" and w = "world0 ()"]
  by simp

theorem postgresql_init_requires_keys_counterexample:
  "fst (PostgreSQLManager_init
          [''database'' \<mapsto> PStr ''shop'', ''user'' \<mapsto> PStr ''alice'', ''password'' \<mapsto> PStr ''s3cret'']
          (world0 ())) =
     Inl (ValueError ''Failed to initialize PostgreSQL Manager due to bad configs'')"
  by (simp add: PostgreSQLManager_init_def object_defs)

text \<open>
  Claim C6 (a required key that is missing or empty makes the constructor raise, on
  every backend). The document adapter tests only that \<^verbatim>\<open>host\<close> is present: the
  configuration \<^verbatim>\<open>{'host': ''}\<close> is accepted and stored, where the file-based adapter
  rejects its empty \<^verbatim>\<open>path\<close>.
\<close>

theorem mongo_init_accepts_empty_host:
  "MongoDBManager_init [''host'' \<mapsto> PStr ''''] (world0 d) =
     (Inr (new_manager\<lparr>connection_config :=
             Some [(''host'', PStr ''''), (''port'', PStr ''27017''), (''password'', PStr ''''),
                   (''dbname'', PStr ''mydb'')]\<rparr>),
      (world0 d)\<lparr>driver_imported := True\<rparr>)
   \<and> fst (SQLiteManager_init [''path'' \<mapsto> PStr ''''] (world0 d)) =
       Inl (ValueError ''Failed to initialize SQLite Manager due to missing path'')"
  by (simp add: object_defs mongo_defs sqlite_defs)

text \<open>
  Claim C7 (\<^verbatim>\<open>close()\<close> on a never-opened adapter is a no-op that does not raise).
  \<^verbatim>\<open>close()\<close> starts by reading \<^verbatim>\<open>self.conn\<close>, which a never-opened adapter does
  not have: it raises \<^verbatim>\<open>AttributeError\<close>, with whatever driver and in whatever world,
  on the file-based and on the document adapter.
\<close>

theorem close_never_opened:
  "SQLiteManager_close drv a_new w = (Inl (AttributeError ''conn''), a_new, w)
   \<and> MongoDBManager_close m_new w' = (Inl (AttributeError ''conn''), m_new, w')"
  by (simp add: object_defs sqlite_defs toy_sqlite_defs mongo_defs toy_mongo_defs)




text \<open>
  Claim C9. On a document adapter that holds a connection object, a command that parses
  to a dictionary whose \<^verbatim>\<open>operation\<close> is none of the ten values of the chain (also
  when it has none) makes \<^verbatim>\<open>execute_db_call\<close> return 1; the adapter, with its
  snapshot, is unchanged, and so is the world but for the printed error.
\<close>

theorem mongo_execute_unsupported_operation:
  assumes "conn a = Some c" and "truthy c"
    and "json_loads drv call = Inr (PDict kv)"
    and "\<forall>op \<in> set supported_operations. map_of kv ''operation'' \<noteq> Some (PStr op)"
  shows "MongoDBManager_execute_db_call drv call a w =
           (Inr 1, a,
            w\<lparr>stdout := stdout w @ [[PrStr ''Error:'', PrExn (ValueError ''Unsupported operation type'')]]\<rparr>)"
proof -
  define operation where "operation = (case map_of kv ''operation'' of None \<Rightarrow> PNone | Some v \<Rightarrow> v)"
  have op: "dict_get (PDict kv) ''operation'' PNone = Inr operation"
    by (simp add: dict_get_def operation_def split: option.splits)
  have ne: "operation \<noteq> PStr s" if "s \<in> set supported_operations" for s
    using assms(4) that by (auto simp: operation_def split: option.splits)
  have d: "mongo_dispatch drv a operation cn data query options w =
             (Inl (ValueError ''Unsupported operation type''), w)" for cn data query options
    using ne by (simp add: mongo_dispatch_def supported_operations_def)
  have "mongo_command drv call a w = (Inl (ValueError ''Unsupported operation type''), w)"
    using assms(3) op d by (simp add: mongo_command_def dict_get_def split: option.splits)
  then show ?thesis
    using assms(1,2) by (simp add: MongoDBManager_execute_db_call_def getattr_def)
qed

theorem mongo_execute_unsupported_operation_witness:
  "conn m_open = Some (PConn 0) \<and> truthy (PConn 0)
   \<and> json_loads toy_mongo call_drop = Inr (PDict [(''operation'', PStr ''drop''), (''collection'', PStr ''c'')])
   \<and> MongoDBManager_execute_db_call toy_mongo call_drop m_open mw_open =
       (Inr 1, m_open,
        mw_open\<lparr>stdout := stdout mw_open @ [[PrStr ''Error:'', PrExn (ValueError ''Unsupported operation type'')]]\<rparr>)"
proof -
  have c: "conn m_open = Some (PConn 0)" by (simp add: m_open_def)
  have j: "json_loads toy_mongo call_drop = Inr (PDict [(''operation'', PStr ''drop''), (''collection'', PStr ''c'')])"
    by (simp add: toy_mongo_def toy_loads_def call_drop_def call_insert_def)
  have n: "\<forall>op \<in> set supported_operations.
             map_of [(''operation'', PStr ''drop''), (''collection'', PStr ''c'')] ''operation'' \<noteq> Some (PStr op)"
    by (simp add: supported_operations_def)
  from mongo_execute_unsupported_operation [OF c _ j n, of mw_open] c j
  show ?thesis by simp
qed

text \<open>
  Claim C10. For an adapter that \<^verbatim>\<open>MongoDBManager.__init__\<close> made: \<^verbatim>\<open>connect()\<close>
  makes one native client call, with the configured host and port and nothing else;
  the password is stored in the configuration; the port stored when none is configured
  is the string \<^verbatim>\<open>'27017'\<close>. When the native client accepts the host and port and the
  configured database name (\<^verbatim>\<open>'mydb'\<close> by default), the adapter holds the new
  connection and the database handle is the client's entry for that name; when the
  native client raises, the adapter is unchanged and the error is printed; whenever no
  failure was printed the handle is the one for the configured name. With any other
  password in the configuration \<^verbatim>\<open>connect()\<close> gives the same result, the same world
  and the same connection, database handle and snapshot.
  The witness connects with the configuration of the module's own example, which
  succeeds, and with a configuration without a port, whose default the client refuses.
\<close>

theorem mongo_connect_host_port_only:
  assumes i: "MongoDBManager_init config w0 = (Inr a, w1)"
    and c: "MongoDBManager_connect drv a w = (r, a', w')"
  shows "(\<exists>host. config ''host'' = Some host
            \<and> connect_calls w' =
                connect_calls w @ [[host, case config ''port'' of Some v \<Rightarrow> v | None \<Rightarrow> PStr ''27017'']])
       \<and> config_item a ''password'' = Inr (case config ''password'' of Some v \<Rightarrow> v | None \<Rightarrow> PStr [])
       \<and> (config ''port'' = None \<longrightarrow> config_item a ''port'' = Inr (PStr ''27017''))
       \<and> (\<forall>host d. config ''host'' = Some host
              \<and> mongo_client drv host (case config ''port'' of Some v \<Rightarrow> v | None \<Rightarrow> PStr ''27017'')
                    (backend w) = Inr d
              \<and> get_database drv (case config ''database'' of Some v \<Rightarrow> v | None \<Rightarrow> PStr ''mydb'') = None
            \<longrightarrow> conn a' = Some (PConn (length (connect_calls w)))
                \<and> db a' = Some (PDb (length (connect_calls w))
                              (case config ''database'' of Some v \<Rightarrow> v | None \<Rightarrow> PStr ''mydb'')))
       \<and> (\<forall>host msg. config ''host'' = Some host
              \<and> mongo_client drv host (case config ''port'' of Some v \<Rightarrow> v | None \<Rightarrow> PStr ''27017'')
                    (backend w) = Inl msg
            \<longrightarrow> r = Inr () \<and> a' = a \<and> backend w' = backend w
                \<and> stdout w' = stdout w @ [[PrStr ''Failed to connect to the database. Error:'',
                                            PrExn (NativeError msg)]])
       \<and> (stdout w' = stdout w \<longrightarrow>
            conn a' = Some (PConn (length (connect_calls w)))
            \<and> db a' = Some (PDb (length (connect_calls w))
                          (case config ''database'' of Some v \<Rightarrow> v | None \<Rightarrow> PStr ''mydb'')))
       \<and> (\<forall>p b w2. MongoDBManager_init (config(''password'' \<mapsto> p)) w0 = (Inr b, w2) \<longrightarrow>
            (\<exists>b'. MongoDBManager_connect drv b w = (r, b', w')
                 \<and> conn b' = conn a' \<and> db b' = db a' \<and> schema b' = schema a'))"
proof -
  let ?port = "case config ''port'' of Some v \<Rightarrow> v | None \<Rightarrow> PStr ''27017''"
  let ?dbname = "case config ''database'' of Some v \<Rightarrow> v | None \<Rightarrow> PStr ''mydb''"
  from mongo_init_result [OF i] obtain host where h: "config ''host'' = Some host"
    and a: "a = new_manager\<lparr>connection_config :=
             Some [(''host'', host), (''port'', ?port),
                   (''password'', case config ''password'' of Some v \<Rightarrow> v | None \<Rightarrow> PStr []),
                   (''dbname'', ?dbname)]\<rparr>"
    by blast
  note cs = mongo_connect_cases [OF a c]
  have 1: "\<exists>host. config ''host'' = Some host
            \<and> connect_calls w' = connect_calls w @ [[host, ?port]]"
    using h cs by blast
  have 2: "config_item a ''password'' = Inr (case config ''password'' of Some v \<Rightarrow> v | None \<Rightarrow> PStr [])"
    by (simp add: a config_item_def getattr_def new_manager_def)
  have 3: "config ''port'' = None \<longrightarrow> config_item a ''port'' = Inr (PStr ''27017'')"
    by (simp add: a config_item_def getattr_def new_manager_def)
  have 4: "conn a' = Some (PConn (length (connect_calls w)))
            \<and> db a' = Some (PDb (length (connect_calls w)) ?dbname)"
    if "config ''host'' = Some host'" "mongo_client drv host' ?port (backend w) = Inr d"
       "get_database drv ?dbname = None" for host' d
    using that h cs by auto
  have 5: "r = Inr () \<and> a' = a \<and> backend w' = backend w
            \<and> stdout w' = stdout w @ [[PrStr ''Failed to connect to the database. Error:'',
                                        PrExn (NativeError msg)]]"
    if "config ''host'' = Some host'" "mongo_client drv host' ?port (backend w) = Inl msg" for host' msg
    using that h cs by auto
  have 6: "stdout w' = stdout w \<longrightarrow>
            conn a' = Some (PConn (length (connect_calls w)))
            \<and> db a' = Some (PDb (length (connect_calls w)) ?dbname)"
    using cs by blast
  have 7: "\<exists>b'. MongoDBManager_connect drv b w = (r, b', w')
                 \<and> conn b' = conn a' \<and> db b' = db a' \<and> schema b' = schema a'"
    if b: "MongoDBManager_init (config(''password'' \<mapsto> p)) w0 = (Inr b, w2)" for p b w2
  proof -
    from mongo_init_result [OF b] h
    have "b = a\<lparr>connection_config :=
             Some [(''host'', host), (''port'', ?port), (''password'', p), (''dbname'', ?dbname)]\<rparr>"
      by (auto simp: a new_manager_def)
    with mongo_connect_cases [OF a c, of p] show ?thesis by blast
  qed
  from 1 2 3 4 5 6 7 show ?thesis by blast
qed

theorem mongo_connect_host_port_only_witness:
  "MongoDBManager_init m_config (world0 ([]::toy_store)) =
     (Inr m_new, (world0 [])\<lparr>driver_imported := True\<rparr>)
   \<and> MongoDBManager_connect toy_mongo m_new ((world0 [])\<lparr>driver_imported := True\<rparr>) =
       (Inr (), m_open, mw_open)
   \<and> m_config ''host'' = Some (PStr ''localhost'')
   \<and> mongo_client toy_mongo (PStr ''localhost'') (PInt 27017) ([]::toy_store) = Inr []
   \<and> get_database toy_mongo (PStr ''test_db'') = None
   \<and> connect_calls mw_open = [[PStr ''localhost'', PInt 27017]]
   \<and> conn m_open = Some (PConn 0) \<and> db m_open = Some (PDb 0 (PStr ''test_db''))
   \<and> stdout mw_open = []
   \<and> config_item m_new ''password'' = Inr (PStr [])
   \<and> MongoDBManager_connect toy_mongo
        (m_new\<lparr>connection_config :=
             Some [(''host'', PStr ''localhost''), (''port'', PInt 27017),
                   (''password'', PStr ''s3cret''), (''dbname'', PStr ''test_db'')]\<rparr>)
        ((world0 [])\<lparr>driver_imported := True\<rparr>) =
       (Inr (),
        m_open\<lparr>connection_config :=
             Some [(''host'', PStr ''localhost''), (''port'', PInt 27017),
                   (''password'', PStr ''s3cret''), (''dbname'', PStr ''test_db'')]\<rparr>,
        mw_open)
   \<and> MongoDBManager_init [''host'' \<mapsto> PStr ''localhost''] (world0 ([]::toy_store)) =
       (Inr m_default, (world0 [])\<lparr>driver_imported := True\<rparr>)
   \<and> [''host'' \<mapsto> PStr ''localhost''] ''port'' = None
   \<and> config_item m_default ''port'' = Inr (PStr ''27017'')
   \<and> mongo_client toy_mongo (PStr ''localhost'') (PStr ''27017'') ([]::toy_store) =
       Inl ''port must be an instance of int''
   \<and> MongoDBManager_connect toy_mongo m_default ((world0 [])\<lparr>driver_imported := True\<rparr>) =
       (Inr (), m_default, mw_default)
   \<and> connect_calls mw_default = [[PStr ''localhost'', PStr ''27017'']]
   \<and> stdout mw_default =
       [[PrStr ''Failed to connect to the database. Error:'',
         PrExn (NativeError ''port must be an instance of int'')]]"
proof -
  note o = mongo_open_reached [THEN conjunct1] mongo_open_reached [THEN conjunct2]
  note d = mongo_default_reached [THEN conjunct1] mongo_default_reached [THEN conjunct2]
  from mongo_connect_host_port_only [OF o] mongo_connect_host_port_only [OF d]
    mongo_open_reached mongo_default_reached mongo_secret_reached toy_client_facts
  show ?thesis
    by (simp add: m_config_def mw_open_def mw_default_def m_open_def m_new_def m_default_def
        world0_def config_item_def getattr_def new_manager_def)
qed

end
